theory Spec2Isabelle
  imports
    Complex_Main
    "HOL-Library.Char_ord"
    "HOL-Library.List_Lexorder"
    "HOL-Library.Product_Lexorder"
begin

chapter \<open>xtrc: the indexing and retrieval pipeline\<close>

text \<open>
  A shallow embedding of the Python sources under \<^verbatim>\<open>src/xtrc\<close>. Python \<^verbatim>\<open>str\<close> is
  \<^typ>\<open>string\<close>; a character stands for the code point of the same number, so the
  model covers the code points 0..255. Python \<^verbatim>\<open>int\<close> is \<^typ>\<open>int\<close>, \<^verbatim>\<open>float\<close> is
  \<^typ>\<open>real\<close>, \<^verbatim>\<open>Optional[T]\<close> is an option, a raised exception is the \<open>Inl\<close> side of
  a sum. A Python \<^verbatim>\<open>set\<close> of strings is a list whose order is never observed:
  every set the code returns goes through \<^verbatim>\<open>sorted(...)\<close>, which is
  \<open>sort (remdups ...)\<close> here.
\<close>

section \<open>Python text primitives\<close>

text \<open>
  Characters are compared by code point (\<open>Char_ord\<close>), so a range of a character class
  is a pair of comparisons: \<^verbatim>\<open>[A-Z]\<close> is \<open>CHR ''A'' \<le> c \<and> c \<le> CHR ''Z''\<close>.
\<close>

definition cp :: "char \<Rightarrow> nat" where
  "cp c = of_char c"

definition between :: "char \<Rightarrow> char \<Rightarrow> char \<Rightarrow> bool" where
  "between lo hi c = (lo \<le> c \<and> c \<le> hi)"

definition is_upper_az :: "char \<Rightarrow> bool" where
  "is_upper_az c = between CHR ''A'' CHR ''Z'' c"

definition is_lower_az :: "char \<Rightarrow> bool" where
  "is_lower_az c = between CHR ''a'' CHR ''z'' c"

definition is_digit09 :: "char \<Rightarrow> bool" where
  "is_digit09 c = between CHR ''0'' CHR ''9'' c"

text \<open>
  \<^verbatim>\<open>str.isspace\<close> and the regular expression class \<^verbatim>\<open>\s\<close> on code points below 256:
  9..13, 28..32, 133 and 160.
\<close>

definition py_isspace :: "char \<Rightarrow> bool" where
  "py_isspace c = (between (CHR 0x09) (CHR 0x0D) c \<or> between (CHR 0x1C) (CHR 0x20) c
                   \<or> c = CHR 0x85 \<or> c = CHR 0xA0)"

text \<open>
  The class \<^verbatim>\<open>\w\<close> of a \<^verbatim>\<open>str\<close> pattern: the underscore and the alphanumeric code points,
  which below 256 are the ASCII letters and digits, 170, 178, 179, 181, 185, 186, 188..190,
  192..214, 216..246 and 248..255.
\<close>

definition py_isword :: "char \<Rightarrow> bool" where
  "py_isword c =
     (is_lower_az c \<or> is_upper_az c \<or> is_digit09 c \<or> c = CHR ''_''
      \<or> c = CHR 0xAA \<or> c = CHR 0xB2 \<or> c = CHR 0xB3 \<or> c = CHR 0xB5 \<or> c = CHR 0xB9 \<or> c = CHR 0xBA
      \<or> between (CHR 0xBC) (CHR 0xBE) c \<or> between (CHR 0xC0) (CHR 0xD6) c
      \<or> between (CHR 0xD8) (CHR 0xF6) c \<or> CHR 0xF8 \<le> c)"

text \<open>
  \<^verbatim>\<open>str.lower\<close>, one code point at a time: A..Z and 192..222 but 215 move up by 32, and
  no code point below 256 lowers to two.
\<close>

definition lower_char :: "char \<Rightarrow> char" where
  "lower_char c =
     (if is_upper_az c \<or> (between (CHR 0xC0) (CHR 0xDE) c \<and> c \<noteq> CHR 0xD7)
      then char_of (cp c + 32) else c)"

definition py_lower :: "string \<Rightarrow> string" where
  "py_lower s = map lower_char s"

text \<open>
  \<^verbatim>\<open>str.upper\<close>; the sources call it on a lower-case HTTP method only, so the letters
  a..z are all it has to cover.
\<close>

definition upper_char :: "char \<Rightarrow> char" where
  "upper_char c = (if is_lower_az c then char_of (cp c - 32) else c)"

definition py_upper :: "string \<Rightarrow> string" where
  "py_upper s = map upper_char s"

definition py_strip :: "string \<Rightarrow> string" where
  "py_strip s = rev (dropWhile py_isspace (rev (dropWhile py_isspace s)))"

text \<open>\<^verbatim>\<open>s.strip("/")\<close> and friends: strip a given set of characters from both ends.\<close>

definition strip_chars :: "string \<Rightarrow> string \<Rightarrow> string" where
  "strip_chars cs s = rev (dropWhile (\<lambda>c. c \<in> set cs) (rev (dropWhile (\<lambda>c. c \<in> set cs) s)))"

definition startswith :: "string \<Rightarrow> string \<Rightarrow> bool" where
  "startswith s p = (take (length p) s = p)"

definition endswith :: "string \<Rightarrow> string \<Rightarrow> bool" where
  "endswith s p = (length p \<le> length s \<and> drop (length s - length p) s = p)"

text \<open>\<^verbatim>\<open>needle in haystack\<close> on strings.\<close>

fun contains :: "string \<Rightarrow> string \<Rightarrow> bool" where
  "contains [] needle = (needle = [])"
| "contains (c # s) needle = (startswith (c # s) needle \<or> contains s needle)"

text \<open>
  Slices with \<^verbatim>\<open>int\<close> bounds that are not negative: \<^verbatim>\<open>xs[:n]\<close>, \<^verbatim>\<open>xs[n:]\<close> and
  \<^verbatim>\<open>xs[a:b]\<close>. A bound past the end is no error in Python.
\<close>

fun slice_to :: "int \<Rightarrow> 'a list \<Rightarrow> 'a list" where
  "slice_to n [] = []"
| "slice_to n (x # xs) = (if n \<le> 0 then [] else x # slice_to (n - 1) xs)"

fun slice_from :: "int \<Rightarrow> 'a list \<Rightarrow> 'a list" where
  "slice_from n [] = []"
| "slice_from n (x # xs) = (if n \<le> 0 then x # xs else slice_from (n - 1) xs)"

definition slice :: "int \<Rightarrow> int \<Rightarrow> 'a list \<Rightarrow> 'a list" where
  "slice a b xs = slice_from a (slice_to b xs)"

text \<open>\<^verbatim>\<open>len(xs)\<close>\<close>

definition len :: "'a list \<Rightarrow> int" where
  "len xs = int (length xs)"

text \<open>\<^verbatim>\<open>sep.join(parts)\<close>.\<close>

fun join :: "string \<Rightarrow> string list \<Rightarrow> string" where
  "join sep [] = []"
| "join sep [x] = x"
| "join sep (x # y # ys) = x @ sep @ join sep (y # ys)"

text \<open>\<^verbatim>\<open>s.split(c)\<close> for a separator of one character.\<close>

fun split_on :: "char \<Rightarrow> string \<Rightarrow> string \<Rightarrow> string list" where
  "split_on sep acc [] = [acc]"
| "split_on sep acc (c # s) = (if c = sep then acc # split_on sep [] s else split_on sep (acc @ [c]) s)"

text \<open>
  \<^verbatim>\<open>str.splitlines\<close>: the line boundaries below 256 are LF, VT, FF, CR, CR LF, FS, GS,
  RS and NEL; a final line break opens no empty last line.
\<close>

definition py_linebreak :: "char \<Rightarrow> bool" where
  "py_linebreak c = (between (CHR 0x0A) (CHR 0x0D) c \<or> between (CHR 0x1C) (CHR 0x1E) c \<or> c = CHR 0x85)"

fun splitlines_acc :: "string \<Rightarrow> string \<Rightarrow> string list" where
  "splitlines_acc acc [] = (if acc = [] then [] else [acc])"
| "splitlines_acc acc [c] = (if py_linebreak c then [acc] else [acc @ [c]])"
| "splitlines_acc acc (c # d # s) =
     (if c = CHR 0x0D \<and> d = CHR 0x0A then acc # splitlines_acc [] s
      else if py_linebreak c then acc # splitlines_acc [] (d # s)
      else splitlines_acc (acc @ [c]) (d # s))"

definition splitlines :: "string \<Rightarrow> string list" where
  "splitlines s = splitlines_acc [] s"

text \<open>\<^verbatim>\<open>str(n)\<close> for an \<^verbatim>\<open>int\<close>.\<close>

definition digit_char :: "nat \<Rightarrow> char" where
  "digit_char d = char_of (48 + d)"

function str_nat :: "nat \<Rightarrow> string" where
  "str_nat n = (if n < 10 then [digit_char n] else str_nat (n div 10) @ [digit_char (n mod 10)])"
  by pat_completeness auto
termination
  by (relation "measure id") auto

definition str_int :: "int \<Rightarrow> string" where
  "str_int i = (if i < 0 then CHR ''-'' # str_nat (nat (- i)) else str_nat (nat i))"

text \<open>Truthiness of an \<^verbatim>\<open>Optional[str]\<close>: \<^verbatim>\<open>None\<close> and the empty string are false.\<close>

definition truthy :: "string option \<Rightarrow> bool" where
  "truthy v = (case v of None \<Rightarrow> False | Some s \<Rightarrow> s \<noteq> [])"

text \<open>\<^verbatim>\<open>sorted(set(xs))\<close>.\<close>

definition sorted_set :: "string list \<Rightarrow> string list" where
  "sorted_set xs = sort (remdups xs)"

section \<open>Regular expressions\<close>

text \<open>
  The sources search text with Python's \<^verbatim>\<open>re\<close>. A pattern is a value of \<open>rx\<close>; \<open>rmatch\<close>
  lists, in the engine's backtracking order, every way the pattern matches at the head
  of the remaining text. A match state holds the character before the position (for
  \<^verbatim>\<open>\b\<close>), the remaining text and the groups captured so far.
\<close>

datatype cclass =
    Ch char
  | ChCI char
  | Space
  | Digit
  | IdentStart
  | IdentChar
  | Quote
  | Neg cclass
  | Either cclass cclass

datatype rx =
    Cls cclass
  | Eps
  | Seq rx rx
  | Alt rx rx
  | Star rx
  | Grp nat rx
  | WordB

definition ident_start :: "char \<Rightarrow> bool" where
  "ident_start c = (is_lower_az c \<or> is_upper_az c \<or> c = CHR ''_'')"

definition ident_char :: "char \<Rightarrow> bool" where
  "ident_char c = (is_lower_az c \<or> is_upper_az c \<or> is_digit09 c \<or> c = CHR ''_'')"

definition is_quote :: "char \<Rightarrow> bool" where
  "is_quote c = (c = CHR 0x27 \<or> c = CHR 0x22)"

text \<open>
  Character classes: a literal, a literal letter under \<^verbatim>\<open>re.IGNORECASE\<close>, \<^verbatim>\<open>\s\<close>, \<^verbatim>\<open>\d\<close>,
  \<^verbatim>\<open>[A-Za-z_]\<close>, \<^verbatim>\<open>[A-Za-z0-9_]\<close>, \<^verbatim>\<open>['\"]\<close>, a negated class and a union.
\<close>

primrec in_class :: "cclass \<Rightarrow> char \<Rightarrow> bool" where
  "in_class (Ch c) x = (x = c)"
| "in_class (ChCI c) x = (lower_char x = lower_char c)"
| "in_class Space x = py_isspace x"
| "in_class Digit x = is_digit09 x"
| "in_class IdentStart x = ident_start x"
| "in_class IdentChar x = ident_char x"
| "in_class Quote x = is_quote x"
| "in_class (Neg k) x = (\<not> in_class k x)"
| "in_class (Either k l) x = (in_class k x \<or> in_class l x)"

type_synonym mstate = "char option \<times> string \<times> (nat \<times> string) list"

definition m_rest :: "mstate \<Rightarrow> string" where
  "m_rest st = fst (snd st)"

definition m_caps :: "mstate \<Rightarrow> (nat \<times> string) list" where
  "m_caps st = snd (snd st)"

text \<open>
  Greedy repetition: one more round first, stopping last. A round that consumes nothing
  is dropped; every repeated pattern of the sources is a single character class.
\<close>

fun star_iter :: "nat \<Rightarrow> (mstate \<Rightarrow> mstate list) \<Rightarrow> mstate \<Rightarrow> mstate list" where
  "star_iter 0 f st = [st]"
| "star_iter (Suc n) f st =
     concat (map (star_iter n f) (filter (\<lambda>st'. length (m_rest st') < length (m_rest st)) (f st))) @ [st]"

definition set_cap :: "nat \<Rightarrow> mstate \<Rightarrow> mstate \<Rightarrow> mstate" where
  "set_cap k st st' =
     (fst st', m_rest st', (k, take (length (m_rest st) - length (m_rest st')) (m_rest st)) # m_caps st')"

definition at_boundary :: "mstate \<Rightarrow> bool" where
  "at_boundary st =
     ((case fst st of None \<Rightarrow> False | Some c \<Rightarrow> py_isword c)
      \<noteq> (case m_rest st of [] \<Rightarrow> False | c # s \<Rightarrow> py_isword c))"

primrec rmatch :: "rx \<Rightarrow> mstate \<Rightarrow> mstate list" where
  "rmatch (Cls k) st =
     (case m_rest st of [] \<Rightarrow> [] | c # s \<Rightarrow> if in_class k c then [(Some c, s, m_caps st)] else [])"
| "rmatch Eps st = [st]"
| "rmatch (Seq a b) st = concat (map (rmatch b) (rmatch a st))"
| "rmatch (Alt a b) st = rmatch a st @ rmatch b st"
| "rmatch (Star a) st = star_iter (length (m_rest st)) (rmatch a) st"
| "rmatch (Grp k a) st = map (set_cap k st) (rmatch a st)"
| "rmatch WordB st = (if at_boundary st then [st] else [])"

text \<open>
  \<^verbatim>\<open>pattern.search(text)\<close>: the first match at the leftmost position that has one. The
  result is the groups of the match.
\<close>

fun rsearch_from :: "rx \<Rightarrow> char option \<Rightarrow> string \<Rightarrow> ((nat \<times> string) list) option" where
  "rsearch_from r pv [] = (case rmatch r (pv, [], []) of [] \<Rightarrow> None | m # ms \<Rightarrow> Some (m_caps m))"
| "rsearch_from r pv (c # s) =
     (case rmatch r (pv, c # s, []) of [] \<Rightarrow> rsearch_from r (Some c) s | m # ms \<Rightarrow> Some (m_caps m))"

definition rsearch :: "rx \<Rightarrow> string \<Rightarrow> ((nat \<times> string) list) option" where
  "rsearch r s = rsearch_from r None s"

text \<open>\<^verbatim>\<open>match.group(k)\<close> of a group that took part in the match.\<close>

definition group :: "(nat \<times> string) list \<Rightarrow> nat \<Rightarrow> string" where
  "group caps k = (case map_of caps k of None \<Rightarrow> [] | Some s \<Rightarrow> s)"

text \<open>
  \<^verbatim>\<open>re.findall\<close> for a pattern without groups: the successive matches, each search
  starting where the last match ended; after an empty match the scan moves one
  character on.
\<close>

function rfindall :: "rx \<Rightarrow> char option \<Rightarrow> string \<Rightarrow> string list" where
  "rfindall r pv s =
     (case rmatch r (pv, s, []) of
        [] \<Rightarrow> (case s of [] \<Rightarrow> [] | c # t \<Rightarrow> rfindall r (Some c) t)
      | m # ms \<Rightarrow>
          (if length (m_rest m) < length s
           then take (length s - length (m_rest m)) s # rfindall r (fst m) (m_rest m)
           else (case s of [] \<Rightarrow> [[]] | c # t \<Rightarrow> [] # rfindall r (Some c) t)))"
  by pat_completeness auto
termination
  by (relation "measure (\<lambda>(r, pv, s). length s)") auto

definition findall :: "rx \<Rightarrow> string \<Rightarrow> string list" where
  "findall r s = rfindall r None s"

text \<open>Pattern building blocks.\<close>

fun word_ci :: "string \<Rightarrow> rx" where
  "word_ci [] = Eps"
| "word_ci [c] = Cls (ChCI c)"
| "word_ci (c # s) = Seq (Cls (ChCI c)) (word_ci s)"

definition Opt :: "rx \<Rightarrow> rx" where
  "Opt r = Alt r Eps"

definition Plus :: "rx \<Rightarrow> rx" where
  "Plus r = Seq r (Star r)"

fun seqs :: "rx list \<Rightarrow> rx" where
  "seqs [] = Eps"
| "seqs [r] = r"
| "seqs (r # rs) = Seq r (seqs rs)"

fun alts :: "rx list \<Rightarrow> rx" where
  "alts [] = Eps"
| "alts [r] = r"
| "alts (r # rs) = Alt r (alts rs)"

section \<open>core/tokenizer.py\<close>

text \<open>\<^verbatim>\<open>[A-Za-z_][A-Za-z0-9_]*\<close>\<close>

definition IDENT_RE :: rx where
  "IDENT_RE = Seq (Cls IdentStart) (Star (Cls IdentChar))"

text \<open>\<^verbatim>\<open>[A-Za-z_][A-Za-z0-9_]*|\d+|\S\<close>\<close>

definition TOKEN_RE :: rx where
  "TOKEN_RE = alts [IDENT_RE, Plus (Cls Digit), Cls (Neg Space)]"

definition estimate_tokens :: "string \<Rightarrow> int" where
  "estimate_tokens txt = int (length (findall TOKEN_RE txt))"

definition normalize_terms :: "string \<Rightarrow> string list" where
  "normalize_terms txt = filter (\<lambda>token. length token > 1) (findall IDENT_RE (py_lower txt))"

section \<open>core/route\_signals.py\<close>

definition HTTP_INTENT_MAP :: "(string \<times> string) list" where
  "HTTP_INTENT_MAP =
     [(''post'', ''create''), (''put'', ''update''), (''patch'', ''update''),
      (''delete'', ''delete''), (''get'', ''read'')]"

definition INTENT_ALIASES :: "(string \<times> string list) list" where
  "INTENT_ALIASES =
     [(''create'', [''create'', ''add'', ''new'', ''insert'', ''post'', ''register'', ''submit'']),
      (''update'', [''update'', ''edit'', ''modify'', ''put'', ''patch'', ''change'']),
      (''delete'', [''delete'', ''remove'', ''destroy'', ''drop'']),
      (''read'', [''read'', ''get'', ''fetch'', ''find'', ''list'', ''show'', ''retrieve''])]"

definition STOP_TERMS :: "string list" where
  "STOP_TERMS =
     [''the'', ''this'', ''that'', ''with'', ''from'', ''into'', ''where'', ''when'', ''which'',
      ''what'', ''does'', ''should'', ''route'', ''endpoint'', ''http'', ''api'', ''resource'']"

text \<open>\<^verbatim>\<open>(get|post|put|delete|patch)\<close> as group 1, under \<^verbatim>\<open>re.IGNORECASE\<close>.\<close>

definition METHOD_GROUP :: rx where
  "METHOD_GROUP = Grp 1 (alts (map word_ci [''get'', ''post'', ''put'', ''delete'', ''patch'']))"

text \<open>\<^verbatim>\<open>\s*\(\s*['\"]([^'\"]+)['\"]\<close>: the opening bracket and the quoted path, group 2.\<close>

definition QUOTED_PATH :: rx where
  "QUOTED_PATH =
     seqs [Star (Cls Space), Cls (Ch CHR ''(''), Star (Cls Space), Cls Quote,
           Grp 2 (Plus (Cls (Neg Quote))), Cls Quote]"

text \<open>\<^verbatim>\<open>\.\s*(get|post|put|delete|patch)\s*\(\s*['\"]([^'\"]+)['\"]\<close>\<close>

definition JS_ROUTE_RE :: rx where
  "JS_ROUTE_RE = seqs [Cls (Ch CHR ''.''), Star (Cls Space), METHOD_GROUP, QUOTED_PATH]"

text \<open>
  \<^verbatim>\<open>@[A-Za-z_][A-Za-z0-9_\.]*(?:router|app)?\.?\s*(get|post|put|delete|patch)\s*\(\s*['\"]([^'\"]+)['\"]\<close>
\<close>

definition PY_DECORATOR_ROUTE_RE :: rx where
  "PY_DECORATOR_ROUTE_RE =
     seqs [Cls (Ch CHR ''@''), Cls IdentStart, Star (Cls (Either IdentChar (Ch CHR ''.''))),
           Opt (Alt (word_ci ''router'') (word_ci ''app'')), Opt (Cls (Ch CHR ''.'')),
           Star (Cls Space), METHOD_GROUP, QUOTED_PATH]"

text \<open>\<^verbatim>\<open>\b(get|post|put|delete|patch)\b\<close>\<close>

definition GENERIC_METHOD_RE :: rx where
  "GENERIC_METHOD_RE = seqs [WordB, METHOD_GROUP, WordB]"

record RouteSignal =
  rs_method :: string
  rs_intent :: string
  rs_resource :: "string option"
  rs_path :: "string option"
  rs_structural_terms :: "string list"

record QuerySignal =
  qs_intents :: "string list"
  qs_methods :: "string list"
  qs_structural_terms :: "string list"

text \<open>\<^verbatim>\<open>s.split(sep, maxsplit=1)[-1]\<close>: what follows the first \<open>sep\<close>, or all of \<open>s\<close>.\<close>

fun after_first :: "string \<Rightarrow> string \<Rightarrow> string \<Rightarrow> string" where
  "after_first sep whole [] = whole"
| "after_first sep whole (c # s) =
     (if startswith (c # s) sep then drop (length sep) (c # s) else after_first sep whole s)"

definition path_segments :: "string \<Rightarrow> string list" where
  "path_segments path =
     (let normalized = py_strip path in
      if normalized = [] then []
      else
        let normalized =
          (if startswith normalized ''http://'' \<or> startswith normalized ''https://''
           then (let n1 = after_first ''//'' normalized normalized
                 in if CHR ''/'' \<in> set n1 then dropWhile (\<lambda>c. c \<noteq> CHR ''/'') n1 else [])
           else normalized)
        in filter (\<lambda>segment. segment \<noteq> [] \<and> \<not> startswith segment '':''
                     \<and> \<not> (startswith segment ''{'' \<and> endswith segment ''}''))
             (split_on CHR ''/'' [] (strip_chars ''/'' normalized)))"

definition singularize :: "string \<Rightarrow> string" where
  "singularize v =
     (if endswith v ''ies'' \<and> length v > 4 then take (length v - 3) v @ ''y''
      else if endswith v ''s'' \<and> \<not> endswith v ''ss'' \<and> length v > 3 then take (length v - 1) v
      else v)"

definition extract_resource :: "string option \<Rightarrow> string option" where
  "extract_resource path =
     (case path of
        None \<Rightarrow> None
      | Some p \<Rightarrow>
          if p = [] then None
          else (case path_segments p of
                  [] \<Rightarrow> None
                | candidate # rest \<Rightarrow>
                    (case normalize_terms candidate of
                       [] \<Rightarrow> None
                     | tok # toks \<Rightarrow> Some (singularize tok))))"

definition resource_from_symbol :: "string option \<Rightarrow> string option" where
  "resource_from_symbol symbol_name =
     (case symbol_name of
        None \<Rightarrow> None
      | Some n \<Rightarrow>
          if n = [] then None
          else (case filter (\<lambda>token. token \<notin> set [''create'', ''update'', ''delete'', ''get'',
                                                     ''post'', ''put'', ''patch''])
                       (normalize_terms n) of
                  [] \<Rightarrow> None
                | tok # toks \<Rightarrow> Some (singularize tok)))"

text \<open>The method and path that the three patterns find, tried in the source's order.\<close>

definition find_method_path :: "string \<Rightarrow> string option \<times> string option" where
  "find_method_path txt =
     (let (method, path) =
        (case rsearch JS_ROUTE_RE txt of
           Some js_match \<Rightarrow> (Some (py_lower (group js_match 1)), Some (group js_match 2))
         | None \<Rightarrow>
             (case rsearch PY_DECORATOR_ROUTE_RE txt of
                Some py_match \<Rightarrow> (Some (py_lower (group py_match 1)), Some (group py_match 2))
              | None \<Rightarrow> (None, None)))
      in (case method of
            Some m \<Rightarrow> (Some m, path)
          | None \<Rightarrow>
              (case rsearch GENERIC_METHOD_RE txt of
                 Some generic \<Rightarrow> (Some (py_lower (group generic 1)), path)
               | None \<Rightarrow> (None, path))))"

definition extract_route_signal :: "string \<Rightarrow> string option \<Rightarrow> RouteSignal option" where
  "extract_route_signal txt symbol_name =
     (case find_method_path txt of
        (None, path) \<Rightarrow> None
      | (Some method, path) \<Rightarrow>
          (case map_of HTTP_INTENT_MAP method of
             None \<Rightarrow> None
           | Some intent \<Rightarrow>
               (let resource = (if truthy path then extract_resource path
                                else resource_from_symbol symbol_name);
                    terms = [method, intent]
                      @ (case path of
                           None \<Rightarrow> []
                         | Some p \<Rightarrow> if p = [] then [] else concat (map normalize_terms (path_segments p)))
                      @ (case resource of None \<Rightarrow> [] | Some r \<Rightarrow> if r = [] then [] else [r])
                      @ (case symbol_name of
                           None \<Rightarrow> []
                         | Some n \<Rightarrow> if n = [] then [] else normalize_terms n)
                in Some \<lparr>rs_method = py_upper method, rs_intent = intent, rs_resource = resource,
                          rs_path = path, rs_structural_terms = sorted_set terms\<rparr>)))"

definition infer_query_signal :: "string \<Rightarrow> QuerySignal" where
  "infer_query_signal query =
     (let terms = normalize_terms query;
          methods = filter (\<lambda>t. map_of HTTP_INTENT_MAP t \<noteq> None) terms;
          intents =
            map fst (filter (\<lambda>(intent, aliases). list_ex (\<lambda>t. t \<in> set aliases) terms) INTENT_ALIASES)
            @ concat (map (\<lambda>method. case map_of HTTP_INTENT_MAP method of
                                       None \<Rightarrow> []
                                     | Some mapped \<Rightarrow> if mapped = [] then [] else [mapped]) methods);
          structural = filter (\<lambda>t. t \<notin> set STOP_TERMS) terms @ methods @ intents
      in \<lparr>qs_intents = sorted_set intents, qs_methods = sorted_set methods,
          qs_structural_terms = sorted_set structural\<rparr>)"

section \<open>indexer/intent.py\<close>

definition NOISE_PATH_HINTS :: "string list" where
  "NOISE_PATH_HINTS =
     [''seed'', ''seeds'', ''migration'', ''migrations'', ''fixture'', ''fixtures'', ''dummy'',
      ''mock'', ''test'', ''tests'', ''spec'', ''script'', ''scripts'']"

definition LOGGING_HINTS :: "string list" where
  "LOGGING_HINTS = [''log'', ''logger'', ''logging'', ''audit'', ''trace'']"

definition ANALYTICS_HINTS :: "string list" where
  "ANALYTICS_HINTS = [''analytics'', ''metric'', ''metrics'', ''telemetry'', ''tracking'', ''event'']"

definition CREATE_HINTS :: "string list" where
  "CREATE_HINTS = [''create'', ''insert'', ''add'', ''register'', ''new'', ''post'']"

definition UPDATE_HINTS :: "string list" where
  "UPDATE_HINTS = [''update'', ''modify'', ''edit'', ''patch'', ''put'', ''upsert'']"

definition DELETE_HINTS :: "string list" where
  "DELETE_HINTS = [''delete'', ''remove'', ''destroy'', ''drop'']"

definition READ_HINTS :: "string list" where
  "READ_HINTS = [''get'', ''fetch'', ''read'', ''list'', ''find'', ''retrieve'', ''query'']"

record IntentMetadata =
  im_intent_tags :: "string list"
  im_route_method :: "string option"
  im_route_path :: "string option"
  im_route_intent :: "string option"
  im_route_resource :: "string option"
  im_structural_terms :: "string list"
  im_is_route_handler :: bool

definition has_any :: "string \<Rightarrow> string list \<Rightarrow> bool" where
  "has_any v candidates = (let low = py_lower v in list_ex (\<lambda>candidate. contains low candidate) candidates)"

definition has_any_set :: "string list \<Rightarrow> string list \<Rightarrow> bool" where
  "has_any_set vs candidates = list_ex (\<lambda>v. v \<in> set candidates) vs"

text \<open>\<^verbatim>\<open>x or ''\<close> for an optional string.\<close>

definition or_empty :: "string option \<Rightarrow> string" where
  "or_empty v = (case v of None \<Rightarrow> [] | Some s \<Rightarrow> s)"

definition extract_intent_metadata ::
  "string \<Rightarrow> string option \<Rightarrow> string option \<Rightarrow> string \<Rightarrow> IntentMetadata" where
  "extract_intent_metadata file_path symbol_kind symbol txt =
     (let terms = normalize_terms (file_path @ [CHR 0x0A] @ or_empty symbol @ [CHR 0x0A] @ slice_to 8000 txt);
          route_signal = extract_route_signal txt symbol;
          route_method = map_option rs_method route_signal;
          route_path = Option.bind route_signal rs_path;
          route_intent = map_option rs_intent route_signal;
          route_resource = Option.bind route_signal rs_resource;
          tags =
            (if truthy route_intent then [or_empty route_intent @ ''_resource''] else [])
            @ (if has_any file_path NOISE_PATH_HINTS \<or> has_any_set terms [''fixture'', ''fixtures'', ''mock'']
               then (if contains file_path ''seed'' \<or> contains file_path ''seeds'' then [''seed_data''] else [])
                  @ (if contains file_path ''migration'' \<or> contains file_path ''migrations''
                     then [''migration_script''] else [])
                  @ (if has_any file_path [''test'', ''tests'', ''spec''] then [''test_script''] else [])
                  @ (if has_any file_path [''script'', ''scripts''] then [''script''] else [])
               else [])
            @ (if has_any_set terms LOGGING_HINTS then [''logging''] else [])
            @ (if has_any_set terms ANALYTICS_HINTS then [''analytics''] else [])
            @ (if has_any_set terms CREATE_HINTS then [''create_resource''] else [])
            @ (if has_any_set terms UPDATE_HINTS then [''update_resource''] else [])
            @ (if has_any_set terms DELETE_HINTS then [''delete_resource''] else [])
            @ (if has_any_set terms READ_HINTS then [''read_resource''] else [])
            @ (if route_signal \<noteq> None then [''route_handler''] else []);
          structural_terms =
            terms
            @ (case route_signal of
                 None \<Rightarrow> []
               | Some rs \<Rightarrow>
                   rs_structural_terms rs @ [py_lower (rs_method rs), py_lower (rs_intent rs)]
                   @ (if truthy (rs_resource rs) then normalize_terms (or_empty (rs_resource rs)) else []));
          is_route_handler = (route_signal \<noteq> None \<or> symbol_kind = Some ''route'')
      in \<lparr>im_intent_tags = sorted_set tags, im_route_method = route_method, im_route_path = route_path,
          im_route_intent = route_intent, im_route_resource = route_resource,
          im_structural_terms = sorted_set structural_terms, im_is_route_handler = is_route_handler\<rparr>)"

section \<open>core/models.py\<close>

record SymbolBlock =
  sb_kind :: string
  sb_name :: "string option"
  sb_start_line :: int
  sb_end_line :: int
  sb_text :: string

record CodeChunk =
  ch_chunk_id :: string
  ch_repo_path :: string
  ch_file_path :: string
  ch_language :: string
  ch_start_line :: int
  ch_end_line :: int
  ch_symbol :: "string option"
  ch_symbol_kind :: "string option"
  ch_description :: string
  ch_text :: string
  ch_content_hash :: string
  ch_tokens :: int
  ch_keywords :: "string list"
  ch_symbol_terms :: "string list"
  ch_route_method :: "string option"
  ch_route_path :: "string option"
  ch_route_intent :: "string option"
  ch_route_resource :: "string option"
  ch_intent_tags :: "string list"
  ch_structural_terms :: "string list"
  ch_llm_summary :: "string option"

record IndexStats =
  is_repo_path :: string
  is_files_scanned :: int
  is_files_indexed :: int
  is_files_deleted :: int
  is_chunks_indexed :: int

record QueryMatch =
  qm_chunk :: CodeChunk
  qm_vector_score :: real
  qm_keyword_score :: real
  qm_symbol_score :: real
  qm_score :: real
  qm_intent_score :: real
  qm_structural_score :: real
  qm_matched_intents :: "string list"
  qm_matched_keywords :: "string list"
  qm_explanation :: string

text \<open>\<^verbatim>\<open>SelectionSource = Literal["vector", "gemini"]\<close>: the field holds the string itself.\<close>

record QuerySelection =
  sel_file :: string
  sel_line :: int
  sel_reason :: string
  sel_source :: string

section \<open>core/scorer.py\<close>

definition VECTOR_WEIGHT :: real where "VECTOR_WEIGHT = 0.50"
definition KEYWORD_WEIGHT :: real where "KEYWORD_WEIGHT = 0.18"
definition SYMBOL_WEIGHT :: real where "SYMBOL_WEIGHT = 0.12"
definition INTENT_WEIGHT :: real where "INTENT_WEIGHT = 0.12"
definition STRUCTURAL_WEIGHT :: real where "STRUCTURAL_WEIGHT = 0.08"

definition normalize_vector_score :: "real \<Rightarrow> real" where
  "normalize_vector_score s = (if 0 \<le> s \<and> s \<le> 1 then s else max 0 (min 1 ((s + 1) / 2)))"

definition overlap_score :: "string list \<Rightarrow> string list \<Rightarrow> real" where
  "overlap_score query_terms candidates =
     (if query_terms = [] \<or> candidates = [] then 0
      else real (card (set query_terms \<inter> set candidates)) / real (card (set query_terms)))"

definition intent_score :: "string list \<Rightarrow> string option \<Rightarrow> string option \<Rightarrow> real" where
  "intent_score query_intents route_intent route_method =
     (if query_intents = [] then 0
      else
        let candidate =
              (if truthy route_intent then [py_lower (or_empty route_intent)] else [])
              @ (if truthy route_method
                 then (let normalized_method = py_lower (or_empty route_method)
                       in normalized_method
                          # (case map_of HTTP_INTENT_MAP normalized_method of
                               None \<Rightarrow> []
                             | Some mapped \<Rightarrow> if mapped = [] then [] else [mapped]))
                 else [])
        in if candidate = [] then 0
           else real (card (set query_intents \<inter> set candidate)) / real (card (set query_intents)))"

definition HybridScorer_score ::
  "string \<Rightarrow> real \<Rightarrow> string list \<Rightarrow> string list \<Rightarrow> string option \<Rightarrow> string option
     \<Rightarrow> string option \<Rightarrow> string list option \<Rightarrow> real \<times> real \<times> real \<times> real \<times> real \<times> real" where
  "HybridScorer_score query vector_score keywords symbol_terms route_intent route_method
       route_resource structural_terms =
     (let query_signal = infer_query_signal query;
          query_terms = normalize_terms query;
          keyword_score = overlap_score query_terms keywords;
          symbol_score = overlap_score query_terms symbol_terms;
          normalized_vector = normalize_vector_score vector_score;
          intent_sc = intent_score (qs_intents query_signal) route_intent route_method;
          candidate_structural_terms =
            (case structural_terms of None \<Rightarrow> [] | Some ts \<Rightarrow> ts)
            @ (if truthy route_method then [py_lower (or_empty route_method)] else [])
            @ (if truthy route_intent then [py_lower (or_empty route_intent)] else [])
            @ (if truthy route_resource then normalize_terms (or_empty route_resource) else []);
          structural_score = overlap_score (qs_structural_terms query_signal) candidate_structural_terms;
          total = VECTOR_WEIGHT * normalized_vector + KEYWORD_WEIGHT * keyword_score
                  + SYMBOL_WEIGHT * symbol_score + INTENT_WEIGHT * intent_sc
                  + STRUCTURAL_WEIGHT * structural_score
      in (total, normalized_vector, keyword_score, symbol_score, intent_sc, structural_score))"

section \<open>ranking/heuristics.py\<close>

definition ROUTE_QUERY_HINTS :: "string list" where
  "ROUTE_QUERY_HINTS = [''create'', ''post'', ''api'', ''endpoint'', ''route'']"

definition NEGATIVE_INTENTS :: "string list" where
  "NEGATIVE_INTENTS = [''seed_data'', ''migration_script'', ''test_script'', ''script'']"

record HeuristicDecision =
  hd_multiplier :: real
  hd_matched_intents :: "string list"
  hd_matched_keywords :: "string list"
  hd_reasons :: "string list"

record RankingHeuristics =
  rh_route_boost :: real
  rh_noise_penalty :: real
  rh_intent_boost :: real

text \<open>\<^verbatim>\<open>RankingHeuristics.__init__\<close>\<close>

definition RankingHeuristics_init :: "real \<Rightarrow> real \<Rightarrow> real \<Rightarrow> RankingHeuristics" where
  "RankingHeuristics_init route_boost noise_penalty intent_boost =
     \<lparr>rh_route_boost = max 0.1 route_boost, rh_noise_penalty = max 0.1 noise_penalty,
      rh_intent_boost = max 0.1 intent_boost\<rparr>"

definition is_route_chunk :: "CodeChunk \<Rightarrow> bool" where
  "is_route_chunk chunk =
     (truthy (ch_route_method chunk) \<or> ''route_handler'' \<in> set (ch_intent_tags chunk)
      \<or> ch_symbol_kind chunk = Some ''route'')"

definition matched_intents_of :: "string list \<Rightarrow> string list \<Rightarrow> string list" where
  "matched_intents_of query_intents tags =
     (if query_intents = [] then []
      else sorted_set (filter (\<lambda>key. key \<in> set tags) (map (\<lambda>intent. intent @ ''_resource'') query_intents)))"

definition matched_keywords_of :: "string list \<Rightarrow> CodeChunk \<Rightarrow> string list" where
  "matched_keywords_of query_terms chunk =
     (let candidate_terms =
            ch_keywords chunk @ ch_symbol_terms chunk @ ch_structural_terms chunk
            @ (if truthy (ch_route_method chunk) then [py_lower (or_empty (ch_route_method chunk))] else [])
            @ (if truthy (ch_route_resource chunk) then normalize_terms (or_empty (ch_route_resource chunk))
               else []);
          overlap = sorted_set (filter (\<lambda>t. t \<in> set candidate_terms) query_terms)
      in slice_to 8 overlap)"

definition evaluate :: "RankingHeuristics \<Rightarrow> string \<Rightarrow> CodeChunk \<Rightarrow> HeuristicDecision" where
  "evaluate self query chunk =
     (let query_terms = normalize_terms query;
          query_signal = infer_query_signal query;
          matched_intents = matched_intents_of (qs_intents query_signal) (ch_intent_tags chunk);
          hit_intent = (matched_intents \<noteq> []);
          hit_route = (list_ex (\<lambda>t. t \<in> set ROUTE_QUERY_HINTS) query_terms \<and> is_route_chunk chunk);
          hit_noise = list_ex (\<lambda>t. t \<in> set (ch_intent_tags chunk)) NEGATIVE_INTENTS;
          m0 = 1;
          m1 = (if hit_intent then m0 * rh_intent_boost self else m0);
          m2 = (if hit_route then m1 * rh_route_boost self else m1);
          m3 = (if hit_noise then m2 * rh_noise_penalty self else m2);
          reasons =
            (if hit_intent then [''intent match: '' @ join '', '' matched_intents] else [])
            @ (if hit_route then [''route handler boost''] else [])
            @ (if hit_noise then [''noise/script penalty''] else [])
      in \<lparr>hd_multiplier = m3, hd_matched_intents = matched_intents,
          hd_matched_keywords = matched_keywords_of query_terms chunk, hd_reasons = reasons\<rparr>)"

section \<open>Library and collaborator interfaces\<close>

text \<open>A value that \<^verbatim>\<open>json.loads\<close> returns or \<^verbatim>\<open>json.dumps\<close> takes.\<close>

datatype json =
    JNull
  | JBool bool
  | JInt int
  | JNum real
  | JStr string
  | JList "json list"
  | JObj "(string \<times> json) list"

text \<open>
  Exceptions, as far as the sources tell them apart. \<open>AinavError\<close> carries the code, the
  message, the status code and the details; \<^verbatim>\<open>GeminiTimeoutError\<close> is a
  \<open>GeminiClientError\<close>; \<open>OtherError\<close> is any exception that no handler of the sources
  names.
\<close>

datatype exn =
    AinavError string string int "(string \<times> json) list"
  | GeminiClientError string
  | LLMClientError string
  | ValueError string
  | KeyError string
  | TypeError string
  | RuntimeError string
  | OSError string
  | OtherError string

text \<open>A string in single quotes, and in double quotes.\<close>

definition sq :: "string \<Rightarrow> string" where
  "sq s = [CHR 0x27] @ s @ [CHR 0x27]"

definition dq :: "string \<Rightarrow> string" where
  "dq s = [CHR 0x22] @ s @ [CHR 0x22]"

text \<open>\<^verbatim>\<open>str(exc)\<close>: the message; a \<^verbatim>\<open>KeyError\<close> prints the \<^verbatim>\<open>repr\<close> of its key.\<close>

fun exn_str :: "exn \<Rightarrow> string" where
  "exn_str (AinavError code message status details) = message"
| "exn_str (GeminiClientError m) = m"
| "exn_str (LLMClientError m) = m"
| "exn_str (ValueError m) = m"
| "exn_str (KeyError k) = sq k"
| "exn_str (TypeError m) = m"
| "exn_str (RuntimeError m) = m"
| "exn_str (OSError m) = m"
| "exn_str (OtherError m) = m"

text \<open>
  Functions of the Python library that the sources call and that have no definition over
  the reals or over strings here: they are parameters of the model.
  \<^item> \<open>lib_sha256_hex\<close>: \<^verbatim>\<open>hashlib.sha256(s.encode("utf-8")).hexdigest()\<close>;
  \<^item> \<open>lib_sha1_hex\<close>: \<^verbatim>\<open>hashlib.sha1(s.encode("utf-8")).hexdigest()\<close>;
  \<^item> \<open>lib_uuid5_url\<close>: \<^verbatim>\<open>str(uuid.uuid5(uuid.NAMESPACE_URL, s))\<close>;
  \<^item> \<open>lib_json_dumps\<close>: \<^verbatim>\<open>json.dumps(v, ensure_ascii=True, indent=2)\<close>;
  \<^item> \<open>lib_format_fixed n x\<close>: the format \<^verbatim>\<open>f"{x:.nf}"\<close> of a float;
  \<^item> \<open>lib_str\<close>: \<^verbatim>\<open>str(v)\<close> of a value that is not a string.
\<close>

record pylib =
  lib_sha256_hex :: "string \<Rightarrow> string"
  lib_sha1_hex :: "string \<Rightarrow> string"
  lib_uuid5_url :: "string \<Rightarrow> string"
  lib_json_dumps :: "json \<Rightarrow> string"
  lib_format_fixed :: "nat \<Rightarrow> real \<Rightarrow> string"
  lib_str :: "json \<Rightarrow> string"

text \<open>\<^verbatim>\<open>round(x, 6)\<close>, on reals: to the nearest multiple of \<open>10^-6\<close>, ties to the even one.\<close>

definition round_half_even :: "real \<Rightarrow> int" where
  "round_half_even y =
     (let f = \<lfloor>y\<rfloor>; r = y - of_int f
      in if r < 1 / 2 then f else if 1 / 2 < r then f + 1 else if even f then f else f + 1)"

definition py_round :: "nat \<Rightarrow> real \<Rightarrow> real" where
  "py_round n x = of_int (round_half_even (x * 10 ^ n)) / 10 ^ n"

text \<open>\<^verbatim>\<open>isinstance(v, str)\<close> and \<^verbatim>\<open>isinstance(v, int)\<close>; a \<^verbatim>\<open>bool\<close> is an \<^verbatim>\<open>int\<close> in Python.\<close>

fun as_str :: "json \<Rightarrow> string option" where
  "as_str (JStr s) = Some s"
| "as_str v = None"

fun as_int :: "json \<Rightarrow> int option" where
  "as_int (JInt i) = Some i"
| "as_int (JBool b) = Some (if b then 1 else 0)"
| "as_int v = None"

definition json_opt_str :: "string option \<Rightarrow> json" where
  "json_opt_str v = (case v of None \<Rightarrow> JNull | Some s \<Rightarrow> JStr s)"

section \<open>llm/reranker.py\<close>

definition NL :: string where
  "NL = [CHR 0x0A]"

text \<open>\<^verbatim>\<open>_RERANK_PROMPT.format(query=..., candidates_json=...)\<close>\<close>

definition RERANK_PROMPT :: "string \<Rightarrow> string \<Rightarrow> string" where
  "RERANK_PROMPT query candidates_json =
     join NL
       [''You are reranking semantic code search candidates.'',
        [],
        ''Task:'',
        ''- Choose the single best code candidate that answers the user query.'',
        ''- Only choose from the provided candidates.'',
        ''- Prefer exact behavioral relevance over lexical overlap.'',
        [],
        ''Return only a JSON object with this schema:'',
        ''{'',
        ''  '' @ dq ''file'' @ '': '' @ dq ''relative/path.py'' @ '','',
        ''  '' @ dq ''line'' @ '': 42,'',
        ''  '' @ dq ''reason'' @ '': '' @ dq ''brief technical explanation'',
        ''}'',
        [],
        ''User Query:'',
        query,
        [],
        ''Candidates (JSON):'',
        candidates_json,
        []]"

text \<open>\<^verbatim>\<open>_REWRITE_PROMPT.format(query=...)\<close>\<close>

definition REWRITE_PROMPT :: "string \<Rightarrow> string" where
  "REWRITE_PROMPT query =
     join NL
       [''Rewrite this source-code search query to be more precise and technical.'',
        [],
        ''Rules:'',
        ''- Preserve intent.'',
        ''- Mention likely symbols, behaviors, or API shape.'',
        ''- Keep it as a single sentence.'',
        ''- If already precise, return it unchanged.'',
        ''- Return plain text only.'',
        [],
        ''Query:'',
        query,
        []]"

record RerankDecision =
  rd_selection :: QuerySelection
  rd_used_gemini :: bool
  rd_gemini_model :: "string option"
  rd_gemini_latency_ms :: "int option"
  rd_rewritten_query :: "string option"

text \<open>
  The client is a collaborator: \<open>gc_rewrite_query prompt model_name\<close> and
  \<open>gc_complete_json prompt model_name\<close> answer with a result and a latency in
  milliseconds, or raise.
\<close>

record GeminiClient =
  gc_rewrite_query :: "string \<Rightarrow> string \<Rightarrow> exn + (string \<times> int)"
  gc_complete_json :: "string \<Rightarrow> string \<Rightarrow> exn + ((string \<times> json) list \<times> int)"

text \<open>A call that \<^verbatim>\<open>decide\<close> makes to the client: the method, then the prompt and the model.\<close>

datatype llm_call = RewriteQuery string string | CompleteJson string string

record GeminiReranker =
  gr_client :: GeminiClient
  gr_model_name :: string
  gr_threshold :: real
  gr_enable_rewrite :: bool
  gr_max_candidates :: int

text \<open>\<^verbatim>\<open>GeminiReranker.__init__\<close>; the defaults are threshold 0.85, no rewrite, 10 candidates.\<close>

definition GeminiReranker_init ::
  "GeminiClient \<Rightarrow> string \<Rightarrow> real \<Rightarrow> bool \<Rightarrow> int \<Rightarrow> GeminiReranker" where
  "GeminiReranker_init client model_name threshold enable_rewrite max_candidates =
     \<lparr>gr_client = client, gr_model_name = model_name, gr_threshold = max 0 (min 1 threshold),
      gr_enable_rewrite = enable_rewrite, gr_max_candidates = max 1 max_candidates\<rparr>"

definition GeminiReranker_default :: "GeminiClient \<Rightarrow> string \<Rightarrow> GeminiReranker" where
  "GeminiReranker_default client model_name = GeminiReranker_init client model_name 0.85 False 10"

definition truncate_snippet :: "string \<Rightarrow> string" where
  "truncate_snippet s =
     (if len s \<le> 1800 then s else slice_to 1800 s @ NL @ ''# ... truncated ...'')"

definition serialize_candidate :: "int \<Rightarrow> QueryMatch \<Rightarrow> json" where
  "serialize_candidate idx match =
     (let chunk = qm_chunk match in
      JObj
        [(''rank'', JInt idx),
         (''file_path'', JStr (ch_file_path chunk)),
         (''line_range'', JObj [(''start'', JInt (ch_start_line chunk)), (''end'', JInt (ch_end_line chunk))]),
         (''code_snippet'', JStr (truncate_snippet (ch_text chunk))),
         (''metadata'',
          JObj
            [(''language'', JStr (ch_language chunk)),
             (''symbol'', json_opt_str (ch_symbol chunk)),
             (''symbol_kind'', json_opt_str (ch_symbol_kind chunk)),
             (''description'', JStr (ch_description chunk)),
             (''llm_summary'', json_opt_str (ch_llm_summary chunk)),
             (''route_method'', json_opt_str (ch_route_method chunk)),
             (''route_path'', json_opt_str (ch_route_path chunk)),
             (''route_intent'', json_opt_str (ch_route_intent chunk)),
             (''route_resource'', json_opt_str (ch_route_resource chunk)),
             (''intent_tags'', JList (map JStr (ch_intent_tags chunk))),
             (''keywords'', JList (map JStr (ch_keywords chunk))),
             (''symbol_terms'', JList (map JStr (ch_symbol_terms chunk))),
             (''structural_terms'', JList (map JStr (ch_structural_terms chunk)))]),
         (''scores'',
          JObj
            [(''hybrid'', JNum (py_round 6 (qm_score match))),
             (''vector'', JNum (py_round 6 (qm_vector_score match))),
             (''keyword'', JNum (py_round 6 (qm_keyword_score match))),
             (''symbol'', JNum (py_round 6 (qm_symbol_score match)))])])"

text \<open>\<^verbatim>\<open>enumerate(candidates, start=1)\<close>\<close>

fun enumerate_from :: "int \<Rightarrow> 'a list \<Rightarrow> (int \<times> 'a) list" where
  "enumerate_from i [] = []"
| "enumerate_from i (x # xs) = (i, x) # enumerate_from (i + 1) xs"

definition build_rerank_prompt :: "pylib \<Rightarrow> string \<Rightarrow> QueryMatch list \<Rightarrow> string" where
  "build_rerank_prompt lib query candidates =
     RERANK_PROMPT query
       (lib_json_dumps lib (JList (map (\<lambda>(idx, match). serialize_candidate idx match)
                                       (enumerate_from 1 candidates))))"

text \<open>\<^verbatim>\<open>max(items, key=...)\<close> of a list that is not empty: the first of the largest.\<close>

fun max_by :: "('a \<Rightarrow> real) \<Rightarrow> 'a \<Rightarrow> 'a list \<Rightarrow> 'a" where
  "max_by key best [] = best"
| "max_by key best (x # xs) = max_by key (if key best < key x then x else best) xs"

definition BAD_FILE :: string where
  "BAD_FILE = ''Gemini output must include non-empty string '' @ sq ''file''"

definition BAD_LINE :: string where
  "BAD_LINE = ''Gemini output must include positive integer '' @ sq ''line''"

definition BAD_REASON :: string where
  "BAD_REASON = ''Gemini output must include non-empty string '' @ sq ''reason''"

definition selection_from_payload :: "(string \<times> json) list \<Rightarrow> QueryMatch list \<Rightarrow> exn + QuerySelection" where
  "selection_from_payload payload candidates =
     (case map_of payload ''file'' of
        None \<Rightarrow> Inl (KeyError ''file'')
      | Some file_v \<Rightarrow>
     (case map_of payload ''line'' of
        None \<Rightarrow> Inl (KeyError ''line'')
      | Some line_v \<Rightarrow>
     (case map_of payload ''reason'' of
        None \<Rightarrow> Inl (KeyError ''reason'')
      | Some reason_v \<Rightarrow>
     (case as_str file_v of
        None \<Rightarrow> Inl (ValueError BAD_FILE)
      | Some file_path \<Rightarrow>
          if py_strip file_path = [] then Inl (ValueError BAD_FILE)
          else
     (case as_int line_v of
        None \<Rightarrow> Inl (ValueError BAD_LINE)
      | Some line \<Rightarrow>
          if line \<le> 0 then Inl (ValueError BAD_LINE)
          else
     (case as_str reason_v of
        None \<Rightarrow> Inl (ValueError BAD_REASON)
      | Some reason \<Rightarrow>
          if py_strip reason = [] then Inl (ValueError BAD_REASON)
          else
     (case find (\<lambda>item. ch_file_path (qm_chunk item) = file_path
                          \<and> ch_start_line (qm_chunk item) \<le> line \<and> line \<le> ch_end_line (qm_chunk item))
             candidates of
        Some candidate \<Rightarrow>
          Inr \<lparr>sel_file = ch_file_path (qm_chunk candidate), sel_line = line,
               sel_reason = py_strip reason, sel_source = ''gemini''\<rparr>
      | None \<Rightarrow>
          (case filter (\<lambda>item. ch_file_path (qm_chunk item) = file_path) candidates of
             [] \<Rightarrow> Inl (ValueError ''Gemini selected a file that is not part of the candidate list'')
           | c # cs \<Rightarrow>
               (let candidate = max_by qm_score c cs
                in Inr \<lparr>sel_file = ch_file_path (qm_chunk candidate),
                        sel_line = ch_start_line (qm_chunk candidate),
                        sel_reason = py_strip reason, sel_source = ''gemini''\<rparr>)))))))))"

text \<open>The handler \<^verbatim>\<open>except (GeminiClientError, ValueError, KeyError, TypeError)\<close>.\<close>

fun caught_by_rerank :: "exn \<Rightarrow> bool" where
  "caught_by_rerank (GeminiClientError m) = True"
| "caught_by_rerank (ValueError m) = True"
| "caught_by_rerank (KeyError m) = True"
| "caught_by_rerank (TypeError m) = True"
| "caught_by_rerank e = False"

fun is_GeminiClientError :: "exn \<Rightarrow> bool" where
  "is_GeminiClientError (GeminiClientError m) = True"
| "is_GeminiClientError e = False"

definition vector_selection :: "QueryMatch \<Rightarrow> string \<Rightarrow> QuerySelection" where
  "vector_selection best reason =
     \<lparr>sel_file = ch_file_path (qm_chunk best), sel_line = ch_start_line (qm_chunk best),
      sel_reason = reason, sel_source = ''vector''\<rparr>"

text \<open>\<^verbatim>\<open>total_latency_ms or None\<close>\<close>

definition or_none :: "int \<Rightarrow> int option" where
  "or_none n = (if n = 0 then None else Some n)"

text \<open>The decision of the handler: the top vector candidate, with the failure in the reason.\<close>

definition fallback_decision ::
  "pylib \<Rightarrow> GeminiReranker \<Rightarrow> QueryMatch \<Rightarrow> string option \<Rightarrow> exn \<Rightarrow> int \<Rightarrow> RerankDecision" where
  "fallback_decision lib self best rewritten_query exc total_latency_ms =
     \<lparr>rd_selection = vector_selection best
        (''Gemini rerank failed ('' @ exn_str exc @ ''); falling back to top vector candidate ''
         @ ''with score '' @ lib_format_fixed lib 3 (qm_vector_score best) @ ''.''),
      rd_used_gemini = False, rd_gemini_model = Some (gr_model_name self),
      rd_gemini_latency_ms = or_none total_latency_ms,
      rd_rewritten_query = rewritten_query\<rparr>"

text \<open>
  The second half of \<^verbatim>\<open>decide\<close>: the rerank call and its handler, after the optional
  rewrite has left \<open>query_for_rerank\<close>, \<open>rewritten_query\<close> and the latency so far.
\<close>

definition rerank_call ::
  "pylib \<Rightarrow> GeminiReranker \<Rightarrow> QueryMatch \<Rightarrow> QueryMatch list \<Rightarrow> string \<Rightarrow> string option \<Rightarrow> int
     \<Rightarrow> (exn + RerankDecision option) \<times> llm_call list" where
  "rerank_call lib self best candidates query_for_rerank rewritten_query latency0 =
     (let prompt = build_rerank_prompt lib query_for_rerank candidates;
          call = CompleteJson prompt (gr_model_name self)
      in case gc_complete_json (gr_client self) prompt (gr_model_name self) of
           Inl exc \<Rightarrow>
             (if caught_by_rerank exc
              then Inr (Some (fallback_decision lib self best rewritten_query exc latency0))
              else Inl exc, [call])
         | Inr (payload, rerank_latency_ms) \<Rightarrow>
             (let total_latency_ms = latency0 + rerank_latency_ms
              in case selection_from_payload payload candidates of
                   Inl exc \<Rightarrow>
                     (if caught_by_rerank exc
                      then Inr (Some (fallback_decision lib self best rewritten_query exc total_latency_ms))
                      else Inl exc, [call])
                 | Inr selection \<Rightarrow>
                     (Inr (Some \<lparr>rd_selection = selection, rd_used_gemini = True,
                                 rd_gemini_model = Some (gr_model_name self),
                                 rd_gemini_latency_ms = Some total_latency_ms,
                                 rd_rewritten_query = rewritten_query\<rparr>), [call])))"

text \<open>
  \<^verbatim>\<open>GeminiReranker.decide\<close>. The result is what the method returns or raises, and the
  calls it made to the client, in order.
\<close>

definition decide ::
  "pylib \<Rightarrow> GeminiReranker \<Rightarrow> string \<Rightarrow> QueryMatch list
     \<Rightarrow> (exn + RerankDecision option) \<times> llm_call list" where
  "decide lib self query matches =
     (case matches of
        [] \<Rightarrow> (Inr None, [])
      | best # others \<Rightarrow>
          if gr_threshold self \<le> qm_vector_score best
          then (Inr (Some
                  \<lparr>rd_selection = vector_selection best
                     (''High vector confidence '' @ lib_format_fixed lib 3 (qm_vector_score best)
                      @ '' meets threshold '' @ lib_format_fixed lib 2 (gr_threshold self)
                      @ ''; returning top semantic match.''),
                   rd_used_gemini = False, rd_gemini_model = None, rd_gemini_latency_ms = None,
                   rd_rewritten_query = None\<rparr>), [])
          else
            (let candidates = slice_to (gr_max_candidates self) matches
             in if gr_enable_rewrite self
                then (let rewrite_prompt = REWRITE_PROMPT query;
                          call = RewriteQuery rewrite_prompt (gr_model_name self)
                      in case gc_rewrite_query (gr_client self) rewrite_prompt (gr_model_name self) of
                           Inl exc \<Rightarrow>
                             if is_GeminiClientError exc
                             then (let (res, calls) = rerank_call lib self best candidates query None 0
                                   in (res, call # calls))
                             else (Inl exc, [call])
                         | Inr (rewritten_query, rewrite_latency_ms) \<Rightarrow>
                             (let (res, calls) = rerank_call lib self best candidates rewritten_query
                                                   (Some rewritten_query) rewrite_latency_ms
                              in (res, call # calls)))
                else rerank_call lib self best candidates query None 0))"

section \<open>core/metadata\_store.py\<close>

text \<open>
  The tables of the SQLite database, each a list of rows with its primary key first, in
  row order; an upsert replaces the row of its key in place or appends a new row. The
  JSON text columns of a chunk hold the lists that \<^verbatim>\<open>json.dumps\<close> wrote, so a row of
  \<open>ms_chunks\<close> is the chunk itself. Timestamps are the strings of the clock.
\<close>

record MetadataStore =
  ms_files :: "((string \<times> string) \<times> (string \<times> string)) list"
  ms_chunks :: "(string \<times> CodeChunk) list"
  ms_embeddings :: "(string \<times> (real list \<times> string)) list"
  ms_repo_meta :: "(string \<times> string) list"
  ms_llm_summaries :: "(string \<times> (string \<times> string \<times> string)) list"

text \<open>\<^verbatim>\<open>INSERT ... ON CONFLICT(key) DO UPDATE\<close>\<close>

fun upsert_row :: "'k \<Rightarrow> 'v \<Rightarrow> ('k \<times> 'v) list \<Rightarrow> ('k \<times> 'v) list" where
  "upsert_row k v [] = [(k, v)]"
| "upsert_row k v ((k', v') # rows) = (if k' = k then (k, v) # rows else (k', v') # upsert_row k v rows)"

definition get_chunks_by_ids :: "MetadataStore \<Rightarrow> string list \<Rightarrow> (string \<times> CodeChunk) list" where
  "get_chunks_by_ids ms chunk_ids =
     (if chunk_ids = [] then []
      else filter (\<lambda>row. fst row \<in> set chunk_ids) (ms_chunks ms))"

section \<open>core/vector\_store.py\<close>

record SearchHit =
  sh_chunk_id :: string
  sh_score :: real
  sh_payload :: "(string \<times> json) list"

text \<open>
  The Qdrant client is a collaborator. Its state is the collections by name; a
  collection has the vector configuration that \<^verbatim>\<open>get_collection\<close> reports and its
  points (id, vector, payload). The configuration is nothing, an object whose \<^verbatim>\<open>size\<close>
  attribute holds some value, or a dictionary of named vectors, each an object with a
  \<^verbatim>\<open>size\<close> attribute or a dictionary.
\<close>

datatype named_vector = NamedParams json | NamedDict "(string \<times> json) list"

datatype vectors_config = NoVectors | SingleVector json | MultiVector "(string \<times> named_vector) list"

record QdrantCollection =
  qc_vectors :: vectors_config
  qc_points :: "(string \<times> (real list \<times> (string \<times> json) list)) list"

record ScoredPoint =
  sp_id :: json
  sp_score :: real
  sp_payload :: "(string \<times> json) list option"

text \<open>Which of \<^verbatim>\<open>search\<close> and \<^verbatim>\<open>query_points\<close> the installed client has.\<close>

datatype search_api = HasSearch | HasQueryPoints | NoSearchApi

text \<open>
  \<open>qd_search collection vector limit\<close> is what the client's nearest-neighbour query
  answers on a collection (through either method): the scored points, or an exception.
\<close>

record QdrantClient =
  qd_collections :: "(string \<times> QdrantCollection) list"
  qd_api :: search_api
  qd_search :: "QdrantCollection \<Rightarrow> real list \<Rightarrow> int \<Rightarrow> exn + ScoredPoint list"

definition collection_name :: "pylib \<Rightarrow> string \<Rightarrow> string" where
  "collection_name lib repo_path = ''ainav_'' @ slice_to 20 (lib_sha1_hex lib repo_path)"

definition point_id :: "pylib \<Rightarrow> string \<Rightarrow> string" where
  "point_id lib chunk_id = lib_uuid5_url lib chunk_id"

text \<open>The first named vector with an integer size, looked up as the loop of the source does.\<close>

fun first_named_size :: "(string \<times> named_vector) list \<Rightarrow> int option" where
  "first_named_size [] = None"
| "first_named_size ((name, NamedParams sz) # rest) =
     (case as_int sz of Some n \<Rightarrow> Some n | None \<Rightarrow> first_named_size rest)"
| "first_named_size ((name, NamedDict d) # rest) =
     (case map_of d ''size'' of
        None \<Rightarrow> first_named_size rest
      | Some sz \<Rightarrow> (case as_int sz of Some n \<Rightarrow> Some n | None \<Rightarrow> first_named_size rest))"

fun collection_vector_size :: "vectors_config \<Rightarrow> int option" where
  "collection_vector_size NoVectors = None"
| "collection_vector_size (SingleVector sz) = as_int sz"
| "collection_vector_size (MultiVector named) = first_named_size named"

text \<open>\<^verbatim>\<open>str(v)\<close> of a payload value or a point id.\<close>

definition py_str :: "pylib \<Rightarrow> json \<Rightarrow> string" where
  "py_str lib v = (case v of JStr s \<Rightarrow> s | JInt i \<Rightarrow> str_int i | other \<Rightarrow> lib_str lib other)"

definition hit_of_point :: "pylib \<Rightarrow> ScoredPoint \<Rightarrow> SearchHit" where
  "hit_of_point lib point =
     (let payload = (case sp_payload point of None \<Rightarrow> [] | Some p \<Rightarrow> p);
          chunk_id = (case map_of payload ''chunk_id'' of
                        None \<Rightarrow> py_str lib (sp_id point)
                      | Some JNull \<Rightarrow> py_str lib (sp_id point)
                      | Some payload_chunk_id \<Rightarrow> py_str lib payload_chunk_id)
      in \<lparr>sh_chunk_id = chunk_id, sh_score = sp_score point, sh_payload = payload\<rparr>)"

definition DIMENSION_MISMATCH :: "int \<Rightarrow> int \<Rightarrow> exn" where
  "DIMENSION_MISMATCH existing_size expected_size =
     AinavError ''INDEX_DIMENSION_MISMATCH''
       (''Indexed vectors are incompatible with current embedding model ''
        @ ''(index_dim='' @ str_int existing_size @ '', model_dim='' @ str_int expected_size @ ''). ''
        @ ''Run `xtrc index <repo> --rebuild`.'')
       409
       [(''index_dim'', JInt existing_size), (''model_dim'', JInt expected_size)]"

definition SHAPE_MISMATCH :: exn where
  "SHAPE_MISMATCH =
     AinavError ''INDEX_DIMENSION_MISMATCH''
       (''Indexed vectors are incompatible with current embedding model. ''
        @ ''Run `xtrc index <repo> --rebuild`.'')
       409 []"

text \<open>\<^verbatim>\<open>QdrantVectorStore.search\<close>\<close>

definition QdrantVectorStore_search :: "pylib \<Rightarrow> QdrantClient \<Rightarrow> string \<Rightarrow> real list \<Rightarrow> int \<Rightarrow> exn + SearchHit list" where
  "QdrantVectorStore_search lib client repo_path query_vector limit =
     (case map_of (qd_collections client) (collection_name lib repo_path) of
        None \<Rightarrow> Inr []
      | Some collection \<Rightarrow>
          (let expected_size = len query_vector;
               existing_size = collection_vector_size (qc_vectors collection)
           in if existing_size \<noteq> None \<and> existing_size \<noteq> Some expected_size
              then Inl (DIMENSION_MISMATCH (case existing_size of Some n \<Rightarrow> n | None \<Rightarrow> 0) expected_size)
              else
                (case qd_api client of
                   NoSearchApi \<Rightarrow>
                     Inl (RuntimeError ''Unsupported qdrant-client version: missing search/query_points'')
                 | api \<Rightarrow>
                     (case qd_search client collection query_vector limit of
                        Inl (ValueError m) \<Rightarrow> Inl SHAPE_MISMATCH
                      | Inl exc \<Rightarrow> Inl exc
                      | Inr points \<Rightarrow> Inr (map (hit_of_point lib) points)))))"

section \<open>query/rewrite.py\<close>

definition QUERY_REWRITE_PROMPT :: "string \<Rightarrow> string" where
  "QUERY_REWRITE_PROMPT query =
     join NL
       [''Rewrite this code search query into precise backend intent.'',
        [],
        ''Rules:'',
        ''- Keep original user intent.'',
        ''- Mention endpoint/handler behavior when applicable.'',
        ''- Include CRUD action and likely HTTP semantics if implied.'',
        ''- Keep to one sentence.'',
        ''- Return plain text only.'',
        [],
        ''Query:'',
        query,
        []]"

text \<open>
  \<open>qr_llm_client prompt model_name\<close> is \<^verbatim>\<open>LLMTextClient.complete_text\<close>, a collaborator.
  The \<^verbatim>\<open>lru_cache\<close> around the rewrite is not modelled: the client is a function here, so
  a cached answer is the answer.
\<close>

record QueryRewriter =
  qr_llm_client :: "(string \<Rightarrow> string \<Rightarrow> exn + (string \<times> int)) option"
  qr_model_name :: string
  qr_enabled :: bool

text \<open>\<^verbatim>\<open>s.split()\<close>: the runs of characters that are not white space.\<close>

fun split_ws :: "string \<Rightarrow> string \<Rightarrow> string list" where
  "split_ws acc [] = (if acc = [] then [] else [acc])"
| "split_ws acc (c # s) =
     (if py_isspace c then (if acc = [] then split_ws [] s else acc # split_ws [] s)
      else split_ws (acc @ [c]) s)"

definition py_rstrip :: "string \<Rightarrow> string" where
  "py_rstrip s = rev (dropWhile py_isspace (rev s))"

definition clean_rewrite :: "string \<Rightarrow> string" where
  "clean_rewrite t =
     (let line = join '' '' (split_ws [] (py_strip t)) in
      if line = [] then []
      else
        let line = (if startswith line (dq []) \<and> endswith line (dq [])
                    then py_strip (butlast (tl line)) else line);
            line = (if len line > 220 then py_rstrip (slice_to 217 line) @ ''...'' else line)
        in line)"

definition rewrite_uncached :: "QueryRewriter \<Rightarrow> string \<Rightarrow> exn + (string \<times> int)" where
  "rewrite_uncached self query =
     (case qr_llm_client self of
        None \<Rightarrow> Inr (query, 0)
      | Some complete_text \<Rightarrow>
          (case complete_text (QUERY_REWRITE_PROMPT query) (qr_model_name self) of
             Inl exc \<Rightarrow> Inl exc
           | Inr (rewritten, latency) \<Rightarrow>
               (let cleaned = clean_rewrite rewritten
                in Inr (if cleaned = [] then query else cleaned, latency))))"

text \<open>\<^verbatim>\<open>QueryRewriter.rewrite\<close>: the query to search with, whether it changed, the latency.\<close>

definition QueryRewriter_rewrite :: "QueryRewriter \<Rightarrow> string \<Rightarrow> exn + (string \<times> bool \<times> int option)" where
  "QueryRewriter_rewrite self query =
     (if \<not> qr_enabled self \<or> qr_llm_client self = None then Inr (query, False, None)
      else
        let normalized = py_strip query in
        if normalized = [] then Inr (query, False, None)
        else (case rewrite_uncached self normalized of
                Inl (LLMClientError m) \<Rightarrow> Inr (query, False, None)
              | Inl exc \<Rightarrow> Inl exc
              | Inr (rewritten, latency) \<Rightarrow>
                  if rewritten = [] then Inr (query, False, None)
                  else Inr (rewritten, rewritten \<noteq> query, Some latency)))"

section \<open>query/rerank.py\<close>

text \<open>
  \<open>lr_predict pairs\<close> is the cross-encoder behind \<^verbatim>\<open>_predict_scores\<close>: the scores of the
  (query, candidate text) pairs, or the exception of a failed or timed out prediction.
\<close>

record LocalReranker =
  lr_enabled :: bool
  lr_max_candidates :: int
  lr_predict :: "(string \<times> string) list \<Rightarrow> exn + real list"

definition LocalReranker_init ::
  "bool \<Rightarrow> int \<Rightarrow> ((string \<times> string) list \<Rightarrow> exn + real list) \<Rightarrow> LocalReranker" where
  "LocalReranker_init enabled max_candidates predict =
     \<lparr>lr_enabled = enabled, lr_max_candidates = max 1 max_candidates, lr_predict = predict\<rparr>"

text \<open>\<^verbatim>\<open>x or default\<close> for an optional string.\<close>

definition or_else :: "string option \<Rightarrow> string \<Rightarrow> string" where
  "or_else v d = (if truthy v then or_empty v else d)"

definition candidate_text :: "QueryMatch \<Rightarrow> string" where
  "candidate_text match =
     (let chunk = qm_chunk match;
          summary = or_else (ch_llm_summary chunk) (ch_description chunk);
          tags = join '', '' (ch_intent_tags chunk);
          lines =
            [''file: '' @ ch_file_path chunk,
             ''symbol: '' @ or_else (ch_symbol chunk) ''-'',
             ''type: '' @ or_else (ch_symbol_kind chunk) ''major_block'',
             ''intent: '' @ (if tags = [] then ''unknown'' else tags),
             ''summary: '' @ summary]
            @ (if truthy (ch_route_method chunk) \<or> truthy (ch_route_path chunk)
               then [''http: '' @ or_else (ch_route_method chunk) ''-'' @ '' ''
                     @ or_else (ch_route_path chunk) ''-'']
               else [])
      in join NL lines)"

definition predict_scores :: "LocalReranker \<Rightarrow> string \<Rightarrow> QueryMatch list \<Rightarrow> exn + real list" where
  "predict_scores self query matches =
     (if matches = [] then Inr []
      else lr_predict self (map (\<lambda>match. (query, candidate_text match)) matches))"

definition sigmoid :: "real \<Rightarrow> real" where
  "sigmoid v = 1 / (1 + exp (- v))"

definition rescore :: "pylib \<Rightarrow> QueryMatch \<Rightarrow> real \<Rightarrow> QueryMatch" where
  "rescore lib match local_score =
     (let combined = 0.7 * qm_score match + 0.3 * sigmoid local_score;
          note = ''local reranker score='' @ lib_format_fixed lib 3 local_score;
          explanation = (if qm_explanation match \<noteq> [] then qm_explanation match @ ''; '' @ note else note)
      in match\<lparr>qm_score := combined, qm_explanation := explanation\<rparr>)"

text \<open>\<^verbatim>\<open>xs.sort(key=..., reverse=True)\<close>: descending, equal keys in their first order.\<close>

definition sort_desc :: "('a \<Rightarrow> 'k::linorder) \<Rightarrow> 'a list \<Rightarrow> 'a list" where
  "sort_desc key xs = rev (sort_key key (rev xs))"

text \<open>
  \<^verbatim>\<open>LocalReranker.rerank\<close>: the matches and whether they were reranked. A list of scores
  of another length than the window raises the \<^verbatim>\<open>ValueError\<close> of \<^verbatim>\<open>zip(..., strict=True)\<close>.
\<close>

definition LocalReranker_rerank :: "pylib \<Rightarrow> LocalReranker \<Rightarrow> string \<Rightarrow> QueryMatch list \<Rightarrow> exn + (QueryMatch list \<times> bool)" where
  "LocalReranker_rerank lib self query matches =
     (if \<not> lr_enabled self \<or> len matches \<le> 1 then Inr (matches, False)
      else
        let target = slice_to (lr_max_candidates self) matches;
            remainder = slice_from (lr_max_candidates self) matches
        in case predict_scores self query target of
             Inl exc \<Rightarrow> Inr (matches, False)
           | Inr scores \<Rightarrow>
               if length scores \<noteq> length target
               then Inl (ValueError ''zip() arguments have different lengths'')
               else (let reranked = map (\<lambda>(match, local_score). rescore lib match local_score)
                                         (zip target scores)
                     in Inr (sort_desc qm_score reranked @ remainder, True)))"

section \<open>core/query\_engine.py\<close>

text \<open>
  The outcome of a query, but for \<^verbatim>\<open>duration_ms\<close>, which is wall-clock time.
\<close>

record QueryOutcome =
  qo_matches :: "QueryMatch list"
  qo_selection :: "QuerySelection option"
  qo_used_gemini :: bool
  qo_gemini_model :: "string option"
  qo_gemini_latency_ms :: "int option"
  qo_rewritten_query :: "string option"

text \<open>
  The engine and its parts. \<open>qe_embed_query\<close> is \<^verbatim>\<open>EmbeddingService.embed_query\<close>, a
  collaborator that turns the query into a vector.
\<close>

record QueryEngine =
  qe_metadata_store :: MetadataStore
  qe_embed_query :: "string \<Rightarrow> real list"
  qe_vector_store :: QdrantClient
  qe_query_rewriter :: "QueryRewriter option"
  qe_local_reranker :: "LocalReranker option"
  qe_ranking_heuristics :: "RankingHeuristics option"
  qe_reranker :: "GeminiReranker option"

text \<open>The body of the loop over the hits: the match of a hit whose chunk is known.\<close>

definition match_of_hit :: "pylib \<Rightarrow> RankingHeuristics option \<Rightarrow> string \<Rightarrow> SearchHit \<Rightarrow> CodeChunk \<Rightarrow> QueryMatch" where
  "match_of_hit lib heuristics query_for_search hit chunk =
     (case HybridScorer_score query_for_search (sh_score hit) (ch_keywords chunk) (ch_symbol_terms chunk)
             (ch_route_intent chunk) (ch_route_method chunk) (ch_route_resource chunk)
             (Some (ch_structural_terms chunk)) of
        (total_score, normalized_vector, keyword_score, symbol_score, intent_sc, structural_score) \<Rightarrow>
          (let explanation_bits =
                 [''semantic='' @ lib_format_fixed lib 3 normalized_vector,
                  ''keyword='' @ lib_format_fixed lib 3 keyword_score,
                  ''symbol='' @ lib_format_fixed lib 3 symbol_score,
                  ''intent='' @ lib_format_fixed lib 3 intent_sc,
                  ''structural='' @ lib_format_fixed lib 3 structural_score];
               decision = map_option (\<lambda>h. evaluate h query_for_search chunk) heuristics;
               adjusted_total = (case decision of None \<Rightarrow> total_score
                                 | Some d \<Rightarrow> total_score * hd_multiplier d);
               matched_intents = (case decision of None \<Rightarrow> [] | Some d \<Rightarrow> hd_matched_intents d);
               matched_keywords = (case decision of None \<Rightarrow> [] | Some d \<Rightarrow> hd_matched_keywords d);
               explanation_bits =
                 explanation_bits
                 @ (case decision of
                      None \<Rightarrow> []
                    | Some d \<Rightarrow> if hd_reasons d \<noteq> [] then [''heuristics='' @ join '', '' (hd_reasons d)]
                                else [])
           in \<lparr>qm_chunk = chunk, qm_vector_score = normalized_vector, qm_keyword_score = keyword_score,
               qm_symbol_score = symbol_score, qm_score = adjusted_total, qm_intent_score = intent_sc,
               qm_structural_score = structural_score, qm_matched_intents = matched_intents,
               qm_matched_keywords = matched_keywords, qm_explanation = join ''; '' explanation_bits\<rparr>))"

text \<open>The sort key of the matches.\<close>

definition match_key :: "QueryMatch \<Rightarrow> real \<times> real \<times> int \<times> int" where
  "match_key item =
     (qm_score item, qm_vector_score item,
      if truthy (ch_symbol (qm_chunk item)) then 1 else 0, - ch_tokens (qm_chunk item))"

text \<open>The selection, once the matches are ranked.\<close>

definition select_match ::
  "pylib \<Rightarrow> GeminiReranker option \<Rightarrow> string \<Rightarrow> QueryMatch list \<Rightarrow> string option
     \<Rightarrow> (exn + QueryOutcome) \<times> llm_call list" where
  "select_match lib reranker query_for_search matches rewritten_query =
     (case matches of
        [] \<Rightarrow>
          (Inr \<lparr>qo_matches = matches, qo_selection = None, qo_used_gemini = False,
                qo_gemini_model = None, qo_gemini_latency_ms = None,
                qo_rewritten_query = rewritten_query\<rparr>, [])
      | top_match # others \<Rightarrow>
          (case reranker of
             None \<Rightarrow>
               (Inr \<lparr>qo_matches = matches,
                     qo_selection = Some (vector_selection top_match
                       ''Gemini reranker is disabled; returning highest scoring semantic result.''),
                     qo_used_gemini = False, qo_gemini_model = None, qo_gemini_latency_ms = None,
                     qo_rewritten_query = rewritten_query\<rparr>, [])
           | Some r \<Rightarrow>
               (case decide lib r query_for_search matches of
                  (Inl exc, calls) \<Rightarrow> (Inl exc, calls)
                | (Inr None, calls) \<Rightarrow>
                    (Inr \<lparr>qo_matches = matches, qo_selection = None, qo_used_gemini = False,
                          qo_gemini_model = None, qo_gemini_latency_ms = None,
                          qo_rewritten_query = rewritten_query\<rparr>, calls)
                | (Inr (Some decision), calls) \<Rightarrow>
                    (Inr \<lparr>qo_matches = matches, qo_selection = Some (rd_selection decision),
                          qo_used_gemini = rd_used_gemini decision,
                          qo_gemini_model = rd_gemini_model decision,
                          qo_gemini_latency_ms = rd_gemini_latency_ms decision,
                          qo_rewritten_query =
                            (if truthy (rd_rewritten_query decision) then rd_rewritten_query decision
                             else rewritten_query)\<rparr>, calls))))"

text \<open>The optional rewrite at the head of \<^verbatim>\<open>query\<close>: the query to search with, and the
  rewritten query to report.\<close>

definition rewrite_stage :: "QueryRewriter option \<Rightarrow> string \<Rightarrow> exn + (string \<times> string option)" where
  "rewrite_stage query_rewriter query_text =
     (case query_rewriter of
        None \<Rightarrow> Inr (query_text, None)
      | Some rewriter \<Rightarrow>
          (case QueryRewriter_rewrite rewriter query_text of
             Inl exc \<Rightarrow> Inl exc
           | Inr (candidate_query, changed, latency) \<Rightarrow>
               Inr (candidate_query, if changed then Some candidate_query else None)))"

text \<open>The matches of the hits whose chunk the metadata store knows, sorted.\<close>

definition rank_hits :: "pylib \<Rightarrow> QueryEngine \<Rightarrow> string \<Rightarrow> SearchHit list \<Rightarrow> QueryMatch list" where
  "rank_hits lib self query_for_search hits =
     (let chunks = get_chunks_by_ids (qe_metadata_store self) (map sh_chunk_id hits);
          matches =
            concat (map (\<lambda>hit. case map_of chunks (sh_chunk_id hit) of
                                  None \<Rightarrow> []
                                | Some chunk \<Rightarrow>
                                    [match_of_hit lib (qe_ranking_heuristics self) query_for_search hit chunk])
                        hits)
      in sort_desc match_key matches)"

text \<open>The optional local rerank of the top 10, with the tail appended again.\<close>

definition local_rerank_stage ::
  "pylib \<Rightarrow> LocalReranker option \<Rightarrow> string \<Rightarrow> QueryMatch list \<Rightarrow> exn + QueryMatch list" where
  "local_rerank_stage lib local_reranker query_for_search matches =
     (case local_reranker of
        None \<Rightarrow> Inr matches
      | Some lr \<Rightarrow>
          if matches = [] then Inr matches
          else (case LocalReranker_rerank lib lr query_for_search (slice_to 10 matches) of
                  Inl exc \<Rightarrow> Inl exc
                | Inr (reranked, used) \<Rightarrow>
                    Inr (if len matches > 10 then reranked @ slice_from 10 matches else reranked)))"

text \<open>
  \<^verbatim>\<open>QueryEngine.query\<close>, with \<open>repo_key\<close> the resolved repository path and \<open>top_k\<close> at
  least 1, as the request schema has it. The result is the outcome or the exception, and
  the calls made to the LLM reranker's client.
\<close>

definition QueryEngine_query ::
  "pylib \<Rightarrow> QueryEngine \<Rightarrow> string \<Rightarrow> string \<Rightarrow> int \<Rightarrow> (exn + QueryOutcome) \<times> llm_call list" where
  "QueryEngine_query lib self repo_key query_text top_k =
     (case rewrite_stage (qe_query_rewriter self) query_text of
        Inl exc \<Rightarrow> (Inl exc, [])
      | Inr (query_for_search, rewritten_query) \<Rightarrow>
          (let query_embedding = qe_embed_query self query_for_search;
               candidate_limit = max (top_k * 12) top_k
           in case QdrantVectorStore_search lib (qe_vector_store self) repo_key query_embedding
                     candidate_limit of
                Inl exc \<Rightarrow> (Inl exc, [])
              | Inr hits \<Rightarrow>
                  (case local_rerank_stage lib (qe_local_reranker self) query_for_search
                          (rank_hits lib self query_for_search hits) of
                     Inl exc \<Rightarrow> (Inl exc, [])
                   | Inr matches \<Rightarrow>
                       (case select_match lib (qe_reranker self) query_for_search matches rewritten_query of
                          (Inl exc, calls) \<Rightarrow> (Inl exc, calls)
                        | (Inr outcome, calls) \<Rightarrow>
                            (Inr (outcome\<lparr>qo_matches := slice_to top_k matches\<rparr>), calls)))))"


section \<open>core/chunker.py\<close>

text \<open>
  Paths are absolute POSIX paths, held as the list of their parts below the root.
  \<open>path_str\<close> is \<^verbatim>\<open>str(path)\<close>, \<open>relative_to\<close> is \<^verbatim>\<open>Path.relative_to\<close>, which raises a
  \<^verbatim>\<open>ValueError\<close> for a path outside the other, and \<open>rel_str\<close> is \<^verbatim>\<open>str\<close> of a relative path.
\<close>

type_synonym path = "string list"

definition path_str :: "path \<Rightarrow> string" where
  "path_str p = ''/'' @ join ''/'' p"

definition rel_str :: "path \<Rightarrow> string" where
  "rel_str p = (if p = [] then ''.'' else join ''/'' p)"

definition relative_to :: "path \<Rightarrow> path \<Rightarrow> exn + path" where
  "relative_to p other =
     (if take (length other) p = other then Inr (drop (length other) p)
      else Inl (ValueError (sq (path_str p) @ '' is not in the subpath of '' @ sq (path_str other))))"

record ChunkDraft =
  cd_start_line :: int
  cd_end_line :: int
  cd_symbol :: "string option"
  cd_symbol_kind :: "string option"
  cd_text :: string

definition draft_tokens :: "ChunkDraft \<Rightarrow> int" where
  "draft_tokens d = estimate_tokens (cd_text d)"

record ChunkBuilder =
  cb_min_tokens :: int
  cb_max_tokens :: int
  cb_target_tokens :: int

definition ChunkBuilder_default :: ChunkBuilder where
  "ChunkBuilder_default = \<lparr>cb_min_tokens = 200, cb_max_tokens = 800, cb_target_tokens = 500\<rparr>"

text \<open>
  \<^verbatim>\<open>_split_text_by_lines\<close>: the loop over \<^verbatim>\<open>enumerate(lines)\<close>, with the chunks so far, the
  lines and tokens of the current block and its first line, and then the last block.
\<close>

fun split_loop ::
  "ChunkBuilder \<Rightarrow> int \<Rightarrow> (int \<times> string) list \<Rightarrow> (string \<times> int \<times> int) list \<Rightarrow> string list \<Rightarrow> int \<Rightarrow> int
     \<Rightarrow> (string \<times> int \<times> int) list" where
  "split_loop self start_line [] chunks current current_tokens block_start =
     (if current \<noteq> []
      then chunks @ [(join NL current, block_start, block_start + len current - 1)]
      else chunks)"
| "split_loop self start_line ((idx, line) # rest) chunks current current_tokens block_start =
     (let line_tokens = estimate_tokens line;
          projected = current_tokens + line_tokens;
          flush = (current \<noteq> [] \<and> projected > cb_target_tokens self
                   \<and> current_tokens \<ge> cb_min_tokens self);
          chunks1 = (if flush
                     then chunks @ [(join NL current, block_start, block_start + len current - 1)]
                     else chunks);
          block_start1 = (if flush then start_line + idx else block_start);
          current1 = (if flush then [] else current) @ [line];
          current_tokens1 = (if flush then 0 else current_tokens) + line_tokens
      in if current_tokens1 \<ge> cb_max_tokens self
         then (let end_line = block_start1 + len current1 - 1
               in split_loop self start_line rest
                    (chunks1 @ [(join NL current1, block_start1, end_line)]) [] 0 (end_line + 1))
         else split_loop self start_line rest chunks1 current1 current_tokens1 block_start1)"

definition split_text_by_lines :: "ChunkBuilder \<Rightarrow> string \<Rightarrow> int \<Rightarrow> (string \<times> int \<times> int) list" where
  "split_text_by_lines self txt start_line =
     split_loop self start_line (enumerate_from 0 (splitlines txt)) [] [] 0 start_line"

definition slice_file_fallback :: "ChunkBuilder \<Rightarrow> string list \<Rightarrow> ChunkDraft list" where
  "slice_file_fallback self lines =
     (if lines = [] then []
      else
        let content = join NL lines;
            tokens = estimate_tokens content
        in if tokens \<le> cb_max_tokens self
           then [\<lparr>cd_start_line = 1, cd_end_line = len lines, cd_symbol = None,
                  cd_symbol_kind = Some ''major_block'', cd_text = content\<rparr>]
           else map (\<lambda>(part_text, start, end_line).
                       \<lparr>cd_start_line = start, cd_end_line = end_line, cd_symbol = None,
                        cd_symbol_kind = Some ''major_block'', cd_text = part_text\<rparr>)
                    (split_text_by_lines self content 1))"

text \<open>The draft of a symbol, or nothing when its lines are blank.\<close>

definition symbol_draft :: "string list \<Rightarrow> SymbolBlock \<Rightarrow> ChunkDraft list" where
  "symbol_draft lines symbol =
     (let start = max (sb_start_line symbol) 1;
          end_line = max (sb_end_line symbol) start;
          body = py_strip (join NL (slice (start - 1) end_line lines))
      in if body = [] then []
         else [\<lparr>cd_start_line = start, cd_end_line = end_line, cd_symbol = sb_name symbol,
                cd_symbol_kind = Some (sb_kind symbol), cd_text = body\<rparr>])"

definition initial_drafts :: "ChunkBuilder \<Rightarrow> string \<Rightarrow> SymbolBlock list \<Rightarrow> ChunkDraft list" where
  "initial_drafts self content symbols =
     (let lines = splitlines content
      in if symbols = [] then slice_file_fallback self lines
         else
           let ordered = sort_key (\<lambda>s. (sb_start_line s, sb_end_line s)) symbols;
               drafts = concat (map (symbol_draft lines) ordered)
           in if drafts \<noteq> [] then drafts else slice_file_fallback self lines)"

definition split_draft :: "ChunkBuilder \<Rightarrow> ChunkDraft \<Rightarrow> ChunkDraft list" where
  "split_draft self draft =
     (if draft_tokens draft \<le> cb_max_tokens self then [draft]
      else map (\<lambda>(part_text, start, end_line).
                  \<lparr>cd_start_line = start, cd_end_line = end_line, cd_symbol = cd_symbol draft,
                   cd_symbol_kind = cd_symbol_kind draft, cd_text = part_text\<rparr>)
               (split_text_by_lines self (cd_text draft) (cd_start_line draft)))"

definition split_large_drafts :: "ChunkBuilder \<Rightarrow> ChunkDraft list \<Rightarrow> ChunkDraft list" where
  "split_large_drafts self drafts = concat (map (split_draft self) drafts)"

text \<open>\<^verbatim>\<open>flush_buffer\<close> of \<^verbatim>\<open>_merge_small_drafts\<close>: the merged list after the flush.\<close>

definition buffer_text :: "ChunkDraft list \<Rightarrow> string" where
  "buffer_text buffer = join (NL @ NL) (map cd_text buffer)"

definition flush_buffer :: "ChunkDraft list \<Rightarrow> ChunkDraft list \<Rightarrow> ChunkDraft list" where
  "flush_buffer merged buffer =
     (if buffer = [] then merged
      else if length buffer = 1 then merged @ [hd buffer]
      else merged @
             [\<lparr>cd_start_line = cd_start_line (hd buffer), cd_end_line = cd_end_line (last buffer),
               cd_symbol = (if length buffer = 1 then cd_symbol (hd buffer) else None),
               cd_symbol_kind = (if length buffer = 1 then cd_symbol_kind (hd buffer)
                                 else Some ''major_block''),
               cd_text = buffer_text buffer\<rparr>])"

fun merge_loop ::
  "ChunkBuilder \<Rightarrow> ChunkDraft list \<Rightarrow> ChunkDraft list \<Rightarrow> ChunkDraft list \<Rightarrow> ChunkDraft list" where
  "merge_loop self [] merged buffer = flush_buffer merged buffer"
| "merge_loop self (draft # rest) merged buffer =
     (if draft_tokens draft \<ge> cb_min_tokens self
      then merge_loop self rest (flush_buffer merged buffer @ [draft]) []
      else if buffer = [] then merge_loop self rest merged [draft]
      else
        let current_tokens = estimate_tokens (buffer_text buffer);
            gap = cd_start_line draft - cd_end_line (last buffer)
        in if current_tokens + draft_tokens draft \<le> cb_max_tokens self \<and> gap \<le> 40
           then merge_loop self rest merged (buffer @ [draft])
           else merge_loop self rest (flush_buffer merged buffer) [draft])"

text \<open>The last step: a small last draft is merged into the one before it when that fits.\<close>

definition merge_tail :: "ChunkBuilder \<Rightarrow> ChunkDraft list \<Rightarrow> ChunkDraft list" where
  "merge_tail self merged =
     (if length merged \<ge> 2 \<and> draft_tokens (last merged) < cb_min_tokens self
      then
        let tail = last merged;
            prev = last (butlast merged);
            front = butlast (butlast merged);
            combined_text = cd_text prev @ NL @ NL @ cd_text tail
        in if estimate_tokens combined_text \<le> cb_max_tokens self
           then front @ [\<lparr>cd_start_line = cd_start_line prev, cd_end_line = cd_end_line tail,
                           cd_symbol = cd_symbol prev, cd_symbol_kind = cd_symbol_kind prev,
                           cd_text = combined_text\<rparr>]
           else front @ [prev, tail]
      else merged)"

definition merge_small_drafts :: "ChunkBuilder \<Rightarrow> ChunkDraft list \<Rightarrow> ChunkDraft list" where
  "merge_small_drafts self drafts =
     (if drafts = [] then []
      else
        let sorted_drafts = sort_key (\<lambda>d. (cd_start_line d, cd_end_line d)) drafts
        in merge_tail self (merge_loop self sorted_drafts [] []))"

text \<open>\<^verbatim>\<open>_describe\<close>\<close>

definition describe :: "string \<Rightarrow> ChunkDraft \<Rightarrow> IntentMetadata \<Rightarrow> string" where
  "describe file_path draft intent_meta =
     (let stripped = py_strip (cd_text draft);
          first_line = (if stripped \<noteq> []
                        then (case splitlines stripped of [] \<Rightarrow> [] | l # ls \<Rightarrow> py_strip l)
                        else []);
          preview = slice_to 120 first_line;
          route_suffix =
            (if truthy (im_route_method intent_meta)
             then '' Intent: '' @ or_else (im_route_intent intent_meta) ''unknown'' @ '' resource.''
                  @ '' HTTP method: '' @ or_empty (im_route_method intent_meta) @ ''.''
                  @ (if truthy (im_route_resource intent_meta)
                     then '' Resource: '' @ or_empty (im_route_resource intent_meta) @ ''.'' else [])
                  @ (if truthy (im_route_path intent_meta)
                     then '' Path: '' @ or_empty (im_route_path intent_meta) @ ''.'' else [])
             else []);
          route_suffix =
            route_suffix
            @ (if im_intent_tags intent_meta \<noteq> []
               then '' Tags: '' @ join '', '' (im_intent_tags intent_meta) @ ''.'' else [])
      in if cd_symbol_kind draft = Some ''class'' \<and> truthy (cd_symbol draft)
         then py_strip (''Class '' @ or_empty (cd_symbol draft) @ '' in '' @ file_path
                        @ ''. Starts with: '' @ preview @ route_suffix)
         else if cd_symbol_kind draft = Some ''route''
         then py_strip (''Route handler '' @ or_else (cd_symbol draft) ''unnamed route'' @ '' in ''
                        @ file_path @ ''. Starts with: '' @ preview @ route_suffix)
         else if cd_symbol_kind draft = Some ''handler''
         then py_strip (''Handler '' @ or_else (cd_symbol draft) ''anonymous handler'' @ '' in ''
                        @ file_path @ ''. Starts with: '' @ preview @ route_suffix)
         else if truthy (cd_symbol draft) \<and> cd_symbol_kind draft = Some ''function''
         then py_strip (''Function '' @ or_empty (cd_symbol draft) @ '' in '' @ file_path
                        @ ''. Starts with: '' @ preview @ route_suffix)
         else py_strip (''Major code block in '' @ file_path @ '' (lines ''
                        @ str_int (cd_start_line draft) @ ''-'' @ str_int (cd_end_line draft) @ ''). ''
                        @ ''Starts with: '' @ preview @ route_suffix))"

text \<open>The body of the loop of \<^verbatim>\<open>build_chunks\<close>: the chunk of a draft.\<close>

definition chunk_of_draft ::
  "pylib \<Rightarrow> string \<Rightarrow> string \<Rightarrow> string \<Rightarrow> string \<Rightarrow> ChunkDraft \<Rightarrow> CodeChunk" where
  "chunk_of_draft lib repo_str relative_path language file_hash draft =
     (let intent_meta = extract_intent_metadata relative_path (cd_symbol_kind draft) (cd_symbol draft)
                          (cd_text draft);
          description = describe relative_path draft intent_meta;
          symbol_terms = normalize_terms (or_empty (cd_symbol draft));
          structural_terms =
            sorted_set (im_structural_terms intent_meta @ normalize_terms relative_path);
          symbol_terms = sorted_set (if structural_terms \<noteq> [] then symbol_terms @ structural_terms
                                     else symbol_terms);
          keyword_source =
            [description, slice_to 4000 (cd_text draft)]
            @ (if truthy (im_route_method intent_meta)
               then [join NL
                       ([''Intent: '' @ or_else (im_route_intent intent_meta) ''unknown'' @ '' resource'',
                         ''HTTP method: '' @ or_empty (im_route_method intent_meta)]
                        @ (if truthy (im_route_resource intent_meta)
                           then [''Resource: '' @ or_empty (im_route_resource intent_meta)] else [])
                        @ (if truthy (im_route_path intent_meta)
                           then [''Path: '' @ or_empty (im_route_path intent_meta)] else []))]
               else []);
          keyword_terms = normalize_terms (join NL keyword_source);
          chunk_hash = lib_sha256_hex lib
            (relative_path @ ''|'' @ str_int (cd_start_line draft) @ ''|''
             @ str_int (cd_end_line draft) @ ''|'' @ cd_text draft)
      in \<lparr>ch_chunk_id = chunk_hash, ch_repo_path = repo_str, ch_file_path = relative_path,
          ch_language = language, ch_start_line = cd_start_line draft,
          ch_end_line = cd_end_line draft, ch_symbol = cd_symbol draft,
          ch_symbol_kind = cd_symbol_kind draft, ch_description = description,
          ch_text = cd_text draft, ch_content_hash = file_hash,
          ch_tokens = estimate_tokens (cd_text draft), ch_keywords = keyword_terms,
          ch_symbol_terms = symbol_terms, ch_route_method = im_route_method intent_meta,
          ch_route_path = im_route_path intent_meta, ch_route_intent = im_route_intent intent_meta,
          ch_route_resource = im_route_resource intent_meta,
          ch_intent_tags = im_intent_tags intent_meta, ch_structural_terms = structural_terms,
          ch_llm_summary = None\<rparr>)"

text \<open>\<^verbatim>\<open>ChunkBuilder.build_chunks\<close>\<close>

definition build_chunks ::
  "pylib \<Rightarrow> ChunkBuilder \<Rightarrow> path \<Rightarrow> path \<Rightarrow> string \<Rightarrow> string \<Rightarrow> string \<Rightarrow> SymbolBlock list
     \<Rightarrow> exn + CodeChunk list" where
  "build_chunks lib self repo_path file_path language file_hash content symbols =
     (case relative_to file_path repo_path of
        Inl exc \<Rightarrow> Inl exc
      | Inr rel \<Rightarrow>
          (let relative_path = rel_str rel;
               drafts = initial_drafts self content symbols;
               drafts = split_large_drafts self drafts;
               drafts = merge_small_drafts self drafts
           in Inr (map (chunk_of_draft lib (path_str repo_path) relative_path language file_hash)
                       drafts)))"

section \<open>Predicates of the statements\<close>

text \<open>
  A candidate holds a line of a file; a candidate is of a file; a payload is the valid
  payload \<^verbatim>\<open>{file, line, reason}\<close>; the optional rewrite of \<^verbatim>\<open>decide\<close> raises nothing
  but a \<^verbatim>\<open>GeminiClientError\<close>; the client answers every rerank prompt with a payload.
\<close>

definition holds_line :: "string \<Rightarrow> int \<Rightarrow> QueryMatch \<Rightarrow> bool" where
  "holds_line file_path line item =
     (ch_file_path (qm_chunk item) = file_path
      \<and> ch_start_line (qm_chunk item) \<le> line \<and> line \<le> ch_end_line (qm_chunk item))"

definition of_file :: "string \<Rightarrow> QueryMatch \<Rightarrow> bool" where
  "of_file file_path item = (ch_file_path (qm_chunk item) = file_path)"

definition valid_payload :: "(string \<times> json) list \<Rightarrow> string \<Rightarrow> int \<Rightarrow> string \<Rightarrow> bool" where
  "valid_payload payload file_path line reason =
     (map_of payload ''file'' = Some (JStr file_path) \<and> py_strip file_path \<noteq> []
      \<and> map_of payload ''line'' = Some (JInt line) \<and> 0 < line
      \<and> map_of payload ''reason'' = Some (JStr reason) \<and> py_strip reason \<noteq> [])"

definition rewrite_recoverable :: "GeminiReranker \<Rightarrow> string \<Rightarrow> bool" where
  "rewrite_recoverable self query =
     (\<not> gr_enable_rewrite self
      \<or> (case gc_rewrite_query (gr_client self) (REWRITE_PROMPT query) (gr_model_name self) of
            Inl exc \<Rightarrow> is_GeminiClientError exc
          | Inr r \<Rightarrow> True))"

definition answers_with :: "GeminiReranker \<Rightarrow> (string \<times> json) list \<Rightarrow> int \<Rightarrow> bool" where
  "answers_with self payload latency =
     (\<forall>prompt. gc_complete_json (gr_client self) prompt (gr_model_name self) = Inr (payload, latency))"


text \<open>
  The window of the local reranker inside \<^verbatim>\<open>query\<close>: the first
  \<open>min 10 max_candidates\<close> matches when a local reranker is configured and enabled.
\<close>

definition rerank_window :: "QueryEngine \<Rightarrow> nat option" where
  "rerank_window self =
     (case qe_local_reranker self of
        None \<Rightarrow> None
      | Some lr \<Rightarrow> if lr_enabled lr then Some (nat (min 10 (lr_max_candidates lr))) else None)"

definition in_window :: "QueryEngine \<Rightarrow> nat \<Rightarrow> bool" where
  "in_window self i = (case rerank_window self of None \<Rightarrow> True | Some w \<Rightarrow> i < w)"

text \<open>The scores of the matches that a query returns, in order (none when it raises).\<close>

definition returned_scores :: "(exn + QueryOutcome) \<times> llm_call list \<Rightarrow> real list" where
  "returned_scores r = (case fst r of Inl exc \<Rightarrow> [] | Inr outcome \<Rightarrow> map qm_score (qo_matches outcome))"

text \<open>The code and the details payload of an \<^verbatim>\<open>AinavError\<close>; a search hit as a triple.\<close>

fun error_code :: "exn \<Rightarrow> string option" where
  "error_code (AinavError code message status_code details) = Some code"
| "error_code e = None"

fun error_details :: "exn \<Rightarrow> (string \<times> json) list" where
  "error_details (AinavError code message status_code details) = details"
| "error_details e = []"

definition triple_of_hit :: "SearchHit \<Rightarrow> string \<times> real \<times> (string \<times> json) list" where
  "triple_of_hit hit = (sh_chunk_id hit, sh_score hit, sh_payload hit)"

text \<open>
  A draft whose lines are in order; a list of such drafts sorted by their first line, as
  \<^verbatim>\<open>_merge_small_drafts\<close> keeps it.
\<close>

definition ordered_lines :: "ChunkDraft \<Rightarrow> bool" where
  "ordered_lines d = (cd_start_line d \<le> cd_end_line d)"

definition merge_ready :: "ChunkDraft list \<Rightarrow> bool" where
  "merge_ready ds = ((\<forall>d \<in> set ds. ordered_lines d) \<and> sorted (map cd_start_line ds))"

section \<open>Example inputs\<close>

text \<open>The route chunk of \<^verbatim>\<open>tests/test_ranking_heuristics.py\<close>, tagged as a test script.\<close>

definition demo_route_chunk :: CodeChunk where
  "demo_route_chunk =
     \<lparr>ch_chunk_id = ''c1'', ch_repo_path = ''/tmp/repo'', ch_file_path = ''routes/posts.js'',
      ch_language = ''javascript'', ch_start_line = 1, ch_end_line = 8,
      ch_symbol = Some ''POST /posts'', ch_symbol_kind = Some ''route'',
      ch_description = ''Route handler'', ch_text = ''router.post(/posts, createPostHandler)'',
      ch_content_hash = ''h'', ch_tokens = 10, ch_keywords = [''post'', ''create'', ''handler''],
      ch_symbol_terms = [''post'', ''create''], ch_route_method = Some ''POST'',
      ch_route_path = Some ''/posts'', ch_route_intent = Some ''create'',
      ch_route_resource = Some ''post'', ch_intent_tags = [''create_resource'', ''test_script''],
      ch_structural_terms = [''post'', ''create'', ''endpoint''], ch_llm_summary = None\<rparr>"

text \<open>
  A JavaScript call \<^verbatim>\<open>app.use('/s', s)\<close>: the parser emits it with kind \<^verbatim>\<open>route\<close> and the
  name \<^verbatim>\<open>USE /s\<close>, and its text names no HTTP method.
\<close>

definition demo_use_text :: string where
  "demo_use_text = ''app.use('' @ [CHR 0x27] @ ''/s'' @ [CHR 0x27] @ '', s)''"

text \<open>
  Stand-ins for the library functions, for the examples only: every theorem below holds
  for any \<open>pylib\<close>.
\<close>

definition demo_lib :: pylib where
  "demo_lib =
     \<lparr>lib_sha256_hex = (\<lambda>s. ''sha256:'' @ s), lib_sha1_hex = (\<lambda>s. ''sha1:'' @ s),
      lib_uuid5_url = (\<lambda>s. ''uuid5:'' @ s), lib_json_dumps = (\<lambda>v. ''[]''),
      lib_format_fixed = (\<lambda>n x. ''0.0''), lib_str = (\<lambda>v. ''?'')\<rparr>"

text \<open>\<^verbatim>\<open>_make_match\<close> of \<^verbatim>\<open>tests/test_reranker.py\<close>.\<close>

definition make_match :: "string \<Rightarrow> int \<Rightarrow> int \<Rightarrow> real \<Rightarrow> QueryMatch" where
  "make_match file_path start_line end_line vector_score =
     \<lparr>qm_chunk =
        \<lparr>ch_chunk_id = file_path @ '':'' @ str_int start_line @ '':'' @ str_int end_line,
         ch_repo_path = ''/tmp/repo'', ch_file_path = file_path, ch_language = ''python'',
         ch_start_line = start_line, ch_end_line = end_line, ch_symbol = Some ''fn'',
         ch_symbol_kind = Some ''function'', ch_description = ''code in '' @ file_path,
         ch_text = ''def fn_'' @ str_int start_line @ ''():'' @ NL @ ''    return '' @ str_int start_line,
         ch_content_hash = ''hash-'' @ file_path @ ''-'' @ str_int start_line,
         ch_tokens = 10, ch_keywords = [''score'', ''user''], ch_symbol_terms = [''fn''],
         ch_route_method = None, ch_route_path = None, ch_route_intent = None,
         ch_route_resource = None, ch_intent_tags = [], ch_structural_terms = [],
         ch_llm_summary = None\<rparr>,
      qm_vector_score = vector_score, qm_keyword_score = 0, qm_symbol_score = 0,
      qm_score = vector_score, qm_intent_score = 0, qm_structural_score = 0,
      qm_matched_intents = [], qm_matched_keywords = [], qm_explanation = []\<rparr>"

text \<open>\<^verbatim>\<open>FakeGeminiClient\<close> of the same tests: it answers every prompt with the payload.\<close>

definition fake_client :: "(string \<times> json) list \<Rightarrow> GeminiClient" where
  "fake_client payload =
     \<lparr>gc_rewrite_query = (\<lambda>prompt model_name. Inr (''find score calculation path for user'', 11)),
      gc_complete_json = (\<lambda>prompt model_name. Inr (payload, 42))\<rparr>"

definition fake_reranker :: "(string \<times> json) list \<Rightarrow> GeminiReranker" where
  "fake_reranker payload = GeminiReranker_init (fake_client payload) ''gemini-1.5-flash'' 0.85 False 10"

text \<open>The payload of the test that names a file no candidate has.\<close>

definition missing_payload :: "(string \<times> json) list" where
  "missing_payload = [(''file'', JStr ''src/missing.py''), (''line'', JInt 99), (''reason'', JStr ''wrong'')]"

text \<open>
  A small index: the chunks \<^verbatim>\<open>c0\<close>, \<^verbatim>\<open>c1\<close>, ... , each with the keyword and symbol term
  \<^verbatim>\<open>ab\<close>, and a Qdrant collection of dimension 2 whose search answers one point per
  chunk, with the given scores, in order.
\<close>

definition demo_chunk :: "string \<Rightarrow> CodeChunk" where
  "demo_chunk cid =
     \<lparr>ch_chunk_id = cid, ch_repo_path = ''/repo'', ch_file_path = cid @ ''.py'',
      ch_language = ''python'', ch_start_line = 1, ch_end_line = 2, ch_symbol = Some ''ab'',
      ch_symbol_kind = Some ''function'', ch_description = ''Function ab'',
      ch_text = ''def ab(): return 0'', ch_content_hash = ''h'', ch_tokens = 7,
      ch_keywords = [''ab''], ch_symbol_terms = [''ab''], ch_route_method = None,
      ch_route_path = None, ch_route_intent = None, ch_route_resource = None,
      ch_intent_tags = [], ch_structural_terms = [], ch_llm_summary = None\<rparr>"

definition demo_point :: "string \<times> real \<Rightarrow> ScoredPoint" where
  "demo_point p = \<lparr>sp_id = JStr (''uuid5:'' @ fst p), sp_score = snd p,
                    sp_payload = Some [(''chunk_id'', JStr (fst p))]\<rparr>"

definition demo_collection :: QdrantCollection where
  "demo_collection = \<lparr>qc_vectors = SingleVector (JInt 2), qc_points = []\<rparr>"

definition demo_qdrant :: "(exn + ScoredPoint list) \<Rightarrow> QdrantClient" where
  "demo_qdrant answer =
     \<lparr>qd_collections = [(''ainav_sha1:/repo'', demo_collection)], qd_api = HasSearch,
      qd_search = (\<lambda>collection vector limit. answer)\<rparr>"

definition demo_store :: "string list \<Rightarrow> MetadataStore" where
  "demo_store cids =
     \<lparr>ms_files = [], ms_chunks = map (\<lambda>cid. (cid, demo_chunk cid)) cids, ms_embeddings = [],
      ms_repo_meta = [], ms_llm_summaries = []\<rparr>"

definition demo_engine :: "(string \<times> real) list \<Rightarrow> LocalReranker option \<Rightarrow> GeminiReranker option \<Rightarrow> QueryEngine" where
  "demo_engine scored local_reranker reranker =
     \<lparr>qe_metadata_store = demo_store (map fst scored), qe_embed_query = (\<lambda>q. [1, 0]),
      qe_vector_store = demo_qdrant (Inr (map demo_point scored)),
      qe_query_rewriter = None, qe_local_reranker = local_reranker,
      qe_ranking_heuristics = None, qe_reranker = reranker\<rparr>"

text \<open>A cross-encoder that scores every pair 0, so that the sigmoid is one half.\<close>

definition zero_reranker :: "int \<Rightarrow> LocalReranker" where
  "zero_reranker max_candidates = LocalReranker_init True max_candidates (\<lambda>pairs. Inr (map (\<lambda>p. 0) pairs))"

text \<open>Eleven hits: the first with vector score 1, ten more with vector score 0.9.\<close>

definition eleven_hits :: "(string \<times> real) list" where
  "eleven_hits =
     [(''c0'', 1), (''c1'', 0.9), (''c2'', 0.9), (''c3'', 0.9), (''c4'', 0.9), (''c5'', 0.9),
      (''c6'', 0.9), (''c7'', 0.9), (''c8'', 0.9), (''c9'', 0.9), (''c10'', 0.9)]"

text \<open>
  The match that the engine builds for the chunk \<open>demo_chunk cid\<close>, the query \<^verbatim>\<open>ab\<close> and
  a vector score \<open>v\<close> between 0 and 1, without ranking heuristics.
\<close>

definition demo_match :: "string \<Rightarrow> real \<Rightarrow> QueryMatch" where
  "demo_match cid v =
     \<lparr>qm_chunk = demo_chunk cid, qm_vector_score = v, qm_keyword_score = 1, qm_symbol_score = 1,
      qm_score = 0.5 * v + 0.3, qm_intent_score = 0, qm_structural_score = 0,
      qm_matched_intents = [], qm_matched_keywords = [],
      qm_explanation = ''semantic=0.0; keyword=0.0; symbol=0.0; intent=0.0; structural=0.0''\<rparr>"

text \<open>A payload of the LLM that names line 2 of the file of \<open>demo_chunk ''c0''\<close>.\<close>

definition demo_payload :: "(string \<times> json) list" where
  "demo_payload = [(''file'', JStr ''c0.py''), (''line'', JInt 2), (''reason'', JStr ''best match'')]"

text \<open>A Python file of two lines with one function, its symbol and its draft.\<close>

definition demo_source :: string where
  "demo_source = ''def ab():'' @ NL @ ''    return 0'' @ NL"

definition demo_symbols :: "SymbolBlock list" where
  "demo_symbols =
     [\<lparr>sb_kind = ''function'', sb_name = Some ''ab'', sb_start_line = 1, sb_end_line = 2,
       sb_text = ''def ab():'' @ NL @ ''    return 0''\<rparr>]"

definition demo_draft :: ChunkDraft where
  "demo_draft =
     \<lparr>cd_start_line = 1, cd_end_line = 2, cd_symbol = Some ''ab'', cd_symbol_kind = Some ''function'',
      cd_text = ''def ab():'' @ NL @ ''    return 0''\<rparr>"

chapter \<open>Verified properties\<close>

section \<open>Basic facts\<close>

lemma set_sorted_set [simp]: "set (sorted_set xs) = set xs"
  by (simp add: sorted_set_def)

section \<open>Hybrid scorer\<close>

text \<open>
  C1. For every query, vector score and chunk fields, \<^verbatim>\<open>HybridScorer.score\<close> returns the
  total \<open>0.50 * normalized_vector + 0.18 * keyword_score + 0.12 * symbol_score
  + 0.12 * intent_score + 0.08 * structural_score\<close> together with the five components. The
  keyword score is the number of distinct query terms that are keywords, divided by the
  number of distinct query terms, and 0 when the query has no terms or the chunk has no
  keywords; the symbol score is the same against the symbol terms. For the query
  \<^verbatim>\<open>get user score\<close>, vector score 0.5 and keywords and symbol terms
  \<^verbatim>\<open>["get", "user", "score"]\<close> the result is \<open>(0.5 * 0.5 + 0.18 + 0.12, 0.5, 1, 1, 0, 0)\<close>.
\<close>

theorem hybrid_score_formula:
  "(case HybridScorer_score q v kws symbol_terms route_intent route_method route_resource
           structural_terms of
      (total_score, normalized_vector, keyword_score, symbol_score, intent_sc, structural_score) \<Rightarrow>
        total_score = 0.50 * normalized_vector + 0.18 * keyword_score + 0.12 * symbol_score
                + 0.12 * intent_sc + 0.08 * structural_score
        \<and> normalized_vector = normalize_vector_score v
        \<and> keyword_score =
            (if normalize_terms q = [] \<or> kws = [] then 0
             else real (card (set (normalize_terms q) \<inter> set kws))
                  / real (card (set (normalize_terms q))))
        \<and> symbol_score =
            (if normalize_terms q = [] \<or> symbol_terms = [] then 0
             else real (card (set (normalize_terms q) \<inter> set symbol_terms))
                  / real (card (set (normalize_terms q)))))
   \<and> HybridScorer_score ''get user score'' 0.5 [''get'', ''user'', ''score'']
         [''get'', ''user'', ''score''] None None None None
       = (0.5 * 0.5 + 0.18 + 0.12, 0.5, 1.0, 1.0, 0.0, 0.0)"
proof -
  have ex: "HybridScorer_score ''get user score'' 0.5 [''get'', ''user'', ''score'']
         [''get'', ''user'', ''score''] None None None None
       = (0.5 * 0.5 + 0.18 + 0.12, 0.5, 1.0, 1.0, 0.0, 0.0)"
    by code_simp
  show ?thesis
    unfolding ex
    by (simp add: HybridScorer_score_def Let_def overlap_score_def VECTOR_WEIGHT_def
        KEYWORD_WEIGHT_def SYMBOL_WEIGHT_def INTENT_WEIGHT_def STRUCTURAL_WEIGHT_def)
qed

theorem hybrid_score_formula_witness:
  "fst (HybridScorer_score ''get user score'' 0.5 [''get'', ''user'', ''score'']
         [''get'', ''user'', ''score''] None None None None) = 0.55"
  using hybrid_score_formula [where q = "''get user score''" and v = "0.5"
      and kws = "[''get'', ''user'', ''score'']" and symbol_terms = "[''get'', ''user'', ''score'']"
      and route_intent = None and route_method = None and route_resource = None
      and structural_terms = None]
  by simp

section \<open>Ranking heuristics\<close>

text \<open>
  C10. The constructor of \<^verbatim>\<open>RankingHeuristics\<close> clamps each of the route boost, the noise
  penalty and the intent boost to at least 0.1, whatever is configured; the multiplier of
  \<^verbatim>\<open>evaluate\<close> is 1.0 times a subset of these three factors; so the multiplier is strictly
  positive for every query and chunk.
\<close>

theorem heuristic_multiplier_positive:
  "0.1 \<le> rh_route_boost (RankingHeuristics_init rb np ib)
   \<and> 0.1 \<le> rh_noise_penalty (RankingHeuristics_init rb np ib)
   \<and> 0.1 \<le> rh_intent_boost (RankingHeuristics_init rb np ib)
   \<and> (\<exists>a b c. hd_multiplier (evaluate (RankingHeuristics_init rb np ib) query chunk)
         = 1 * (if a then rh_intent_boost (RankingHeuristics_init rb np ib) else 1)
             * (if b then rh_route_boost (RankingHeuristics_init rb np ib) else 1)
             * (if c then rh_noise_penalty (RankingHeuristics_init rb np ib) else 1))
   \<and> 0 < hd_multiplier (evaluate (RankingHeuristics_init rb np ib) query chunk)"
proof -
  let ?h = "RankingHeuristics_init rb np ib"
  have r: "0.1 \<le> rh_route_boost ?h" and n: "0.1 \<le> rh_noise_penalty ?h"
    and i: "0.1 \<le> rh_intent_boost ?h"
    by (simp_all add: RankingHeuristics_init_def)
  define a where "a = (matched_intents_of (qs_intents (infer_query_signal query)) (ch_intent_tags chunk) \<noteq> [])"
  define b where "b = (list_ex (\<lambda>t. t \<in> set ROUTE_QUERY_HINTS) (normalize_terms query) \<and> is_route_chunk chunk)"
  define c where "c = list_ex (\<lambda>t. t \<in> set (ch_intent_tags chunk)) NEGATIVE_INTENTS"
  have m: "hd_multiplier (evaluate ?h query chunk)
      = 1 * (if a then rh_intent_boost ?h else 1) * (if b then rh_route_boost ?h else 1)
          * (if c then rh_noise_penalty ?h else 1)"
    by (simp add: evaluate_def Let_def a_def b_def c_def)
  have pos: "0 < (if a then rh_intent_boost ?h else 1)" "0 < (if b then rh_route_boost ?h else 1)"
    "0 < (if c then rh_noise_penalty ?h else 1)"
    using r n i by (auto split: if_splits)
  have "0 < hd_multiplier (evaluate ?h query chunk)"
    unfolding m using pos by simp
  with r n i m show ?thesis by blast
qed

theorem heuristic_multiplier_positive_witness:
  "0 < hd_multiplier (evaluate (RankingHeuristics_init 0 (- 1) 0) ''create post api endpoint'' demo_route_chunk)
   \<and> rh_noise_penalty (RankingHeuristics_init 0 (- 1) 0) = 0.1"
  using heuristic_multiplier_positive [where rb = 0 and np = "- 1" and ib = 0
      and query = "''create post api endpoint''" and chunk = demo_route_chunk]
  by (simp add: RankingHeuristics_init_def)

section \<open>Intent metadata\<close>

lemma resource_tag_not_route_handler: "x @ ''_resource'' \<noteq> ''route_handler''"
proof
  assume "x @ ''_resource'' = ''route_handler''"
  then have "last (x @ ''_resource'') = last ''route_handler''" by simp
  then show False by simp
qed

lemma demo_use_no_signal: "extract_route_signal demo_use_text (Some ''USE /s'') = None"
  by code_simp

text \<open>
  C5, as the code has it. The tag \<^verbatim>\<open>route_handler\<close> is in the intent tags of
  \<^verbatim>\<open>extract_intent_metadata\<close> if and only if a route signal exists for the text. The symbol
  kind \<^verbatim>\<open>route\<close> alone sets the flag \<^verbatim>\<open>is_route_handler\<close> of the result, not the tag.
\<close>

theorem route_handler_tag_iff_signal:
  "(''route_handler'' \<in> set (im_intent_tags (extract_intent_metadata file_path symbol_kind symbol body))
    \<longleftrightarrow> extract_route_signal body symbol \<noteq> None)
   \<and> (im_is_route_handler (extract_intent_metadata file_path symbol_kind symbol body)
    \<longleftrightarrow> extract_route_signal body symbol \<noteq> None \<or> symbol_kind = Some ''route'')"
  by (simp add: extract_intent_metadata_def Let_def resource_tag_not_route_handler)

theorem route_handler_tag_iff_signal_witness:
  "''route_handler'' \<notin> set (im_intent_tags
      (extract_intent_metadata ''a.js'' (Some ''route'') (Some ''USE /s'') demo_use_text))
   \<and> im_is_route_handler
      (extract_intent_metadata ''a.js'' (Some ''route'') (Some ''USE /s'') demo_use_text)"
  using route_handler_tag_iff_signal [where file_path = "''a.js''" and symbol_kind = "Some ''route''"
      and symbol = "Some ''USE /s''" and body = demo_use_text]
    demo_use_no_signal
  by simp

text \<open>
  C5 as stated fails: a chunk of kind \<^verbatim>\<open>route\<close> whose text yields no route signal does not
  carry the tag.
\<close>

theorem route_handler_tag_counterexample:
  "\<not> (''route_handler'' \<in> set (im_intent_tags
          (extract_intent_metadata ''a.js'' (Some ''route'') (Some ''USE /s'') demo_use_text))
       \<longleftrightarrow> (extract_route_signal demo_use_text (Some ''USE /s'') \<noteq> None
            \<or> Some ''route'' = Some ''route''))"
  by (simp add: extract_intent_metadata_def Let_def resource_tag_not_route_handler demo_use_no_signal)

section \<open>LLM reranker\<close>

lemma startswith_append [simp]: "startswith (p @ s) p"
  by (simp add: startswith_def)

lemma contains_append: "contains (xs @ needle @ ys) needle"
proof (induction xs)
  case Nil
  show ?case
  proof (cases "needle @ ys")
    case Nil
    then show ?thesis by simp
  next
    case (Cons c s)
    have "startswith (needle @ ys) needle" by simp
    then show ?thesis using Cons by simp
  qed
next
  case (Cons x xs)
  then show ?case by simp
qed

lemma fallback_reason_contains:
  "contains (sel_reason (rd_selection (fallback_decision lib self best rq exc lat))) ''rerank failed''"
proof -
  have "sel_reason (rd_selection (fallback_decision lib self best rq exc lat))
      = ''Gemini '' @ ''rerank failed'' @ ('' ('' @ exn_str exc @ ''); falling back to top vector candidate ''
         @ ''with score '' @ lib_format_fixed lib 3 (qm_vector_score best) @ ''.'')"
    by (simp add: fallback_decision_def vector_selection_def)
  then show ?thesis by (simp only: contains_append)
qed

text \<open>
  C3. The LLM reranker is engaged only when the top candidate's vector score is strictly
  below the threshold (default 0.85): when \<^verbatim>\<open>decide\<close> is called with matches whose first
  has a vector score at or above the threshold, it returns a selection with the top
  match's file path and start line, source \<^verbatim>\<open>vector\<close> and \<^verbatim>\<open>used_gemini\<close> false, and it
  makes no call to the LLM client; and whenever \<^verbatim>\<open>decide\<close> makes a call, the top vector
  score is below the threshold.
\<close>

theorem llm_bypass_when_confident:
  "gr_threshold (GeminiReranker_default client model_name) = 0.85
   \<and> (gr_threshold self \<le> qm_vector_score best \<longrightarrow>
        snd (decide lib self query (best # others)) = []
        \<and> (\<exists>d. fst (decide lib self query (best # others)) = Inr (Some d)
             \<and> sel_file (rd_selection d) = ch_file_path (qm_chunk best)
             \<and> sel_line (rd_selection d) = ch_start_line (qm_chunk best)
             \<and> sel_source (rd_selection d) = ''vector''
             \<and> \<not> rd_used_gemini d))
   \<and> (snd (decide lib self query matches) \<noteq> [] \<longrightarrow>
        matches \<noteq> [] \<and> qm_vector_score (hd matches) < gr_threshold self)"
proof -
  have a: "gr_threshold (GeminiReranker_default client model_name) = 0.85"
    by (simp add: GeminiReranker_default_def GeminiReranker_init_def)
  have b: "gr_threshold self \<le> qm_vector_score best \<longrightarrow>
        snd (decide lib self query (best # others)) = []
        \<and> (\<exists>d. fst (decide lib self query (best # others)) = Inr (Some d)
             \<and> sel_file (rd_selection d) = ch_file_path (qm_chunk best)
             \<and> sel_line (rd_selection d) = ch_start_line (qm_chunk best)
             \<and> sel_source (rd_selection d) = ''vector''
             \<and> \<not> rd_used_gemini d)"
    by (simp add: decide_def vector_selection_def)
  have c: "snd (decide lib self query matches) \<noteq> [] \<longrightarrow>
        matches \<noteq> [] \<and> qm_vector_score (hd matches) < gr_threshold self"
    by (cases matches) (auto simp: decide_def)
  from a b c show ?thesis by blast
qed

theorem llm_bypass_when_confident_witness:
  "snd (decide demo_lib (fake_reranker [(''file'', JStr ''src/a.py''), (''line'', JInt 10), (''reason'', JStr ''unused'')])
          ''where is score computed'' [make_match ''src/a.py'' 10 20 0.93]) = []"
  using llm_bypass_when_confident [where self = "fake_reranker [(''file'', JStr ''src/a.py''), (''line'', JInt 10), (''reason'', JStr ''unused'')]"
      and best = "make_match ''src/a.py'' 10 20 0.93" and others = "[]" and lib = demo_lib
      and query = "''where is score computed''"]
  by (simp add: fake_reranker_def GeminiReranker_init_def make_match_def)


lemma max_by_in: "max_by key b xs \<in> set (b # xs)"
  by (induction xs arbitrary: b) auto

lemma max_by_ge_init: "key b \<le> key (max_by key b xs)"
proof (induction xs arbitrary: b)
  case Nil
  then show ?case by simp
next
  case (Cons y ys)
  have "key b \<le> key (if key b < key y then y else b)" by simp
  also have "\<dots> \<le> key (max_by key (if key b < key y then y else b) ys)"
    by (rule Cons.IH)
  finally show ?case by simp
qed

lemma max_by_ge_elem: "x \<in> set xs \<Longrightarrow> key x \<le> key (max_by key b xs)"
proof (induction xs arbitrary: b)
  case Nil
  then show ?case by simp
next
  case (Cons y ys)
  show ?case
  proof (cases "x = y")
    case True
    have "key y \<le> key (if key b < key y then y else b)" by simp
    also have "\<dots> \<le> key (max_by key (if key b < key y then y else b) ys)"
      by (rule max_by_ge_init)
    finally show ?thesis using True by simp
  next
    case False
    with Cons.prems have "x \<in> set ys" by simp
    then show ?thesis using Cons.IH by simp
  qed
qed

lemma max_by_ge: "x \<in> set (b # xs) \<Longrightarrow> key x \<le> key (max_by key b xs)"
  using max_by_ge_init [of key b xs] max_by_ge_elem [of x xs key b] by auto

lemma selection_valid_payload:
  assumes "valid_payload payload file_path line reason"
  shows "selection_from_payload payload candidates =
     (case find (holds_line file_path line) candidates of
        Some candidate \<Rightarrow>
          Inr \<lparr>sel_file = ch_file_path (qm_chunk candidate), sel_line = line,
               sel_reason = py_strip reason, sel_source = ''gemini''\<rparr>
      | None \<Rightarrow>
          (case filter (of_file file_path) candidates of
             [] \<Rightarrow> Inl (ValueError ''Gemini selected a file that is not part of the candidate list'')
           | c # cs \<Rightarrow>
               Inr \<lparr>sel_file = ch_file_path (qm_chunk (max_by qm_score c cs)),
                    sel_line = ch_start_line (qm_chunk (max_by qm_score c cs)),
                    sel_reason = py_strip reason, sel_source = ''gemini''\<rparr>))"
proof -
  have h: "holds_line file_path line = (\<lambda>item. ch_file_path (qm_chunk item) = file_path
        \<and> ch_start_line (qm_chunk item) \<le> line \<and> line \<le> ch_end_line (qm_chunk item))"
    and f: "of_file file_path = (\<lambda>item. ch_file_path (qm_chunk item) = file_path)"
    by (auto simp: holds_line_def of_file_def fun_eq_iff)
  show ?thesis
    using assms unfolding h f
    by (simp add: selection_from_payload_def valid_payload_def Let_def split: option.split list.split)
qed

text \<open>What the selection is in each of the three cases.\<close>

lemma selection_cases:
  assumes v: "valid_payload payload file_path line reason"
  shows "(list_ex (holds_line file_path line) candidates \<longrightarrow>
            (\<exists>sel. selection_from_payload payload candidates = Inr sel
               \<and> sel_source sel = ''gemini'' \<and> sel_file sel = file_path \<and> sel_line sel = line))
       \<and> (\<not> list_ex (holds_line file_path line) candidates \<and> list_ex (of_file file_path) candidates \<longrightarrow>
            (\<exists>sel. selection_from_payload payload candidates = Inr sel
               \<and> sel_source sel = ''gemini'' \<and> sel_file sel = file_path
               \<and> (\<exists>c. c \<in> set candidates \<and> of_file file_path c
                     \<and> list_all (\<lambda>c'. of_file file_path c' \<longrightarrow> qm_score c' \<le> qm_score c) candidates
                     \<and> sel_line sel = ch_start_line (qm_chunk c))))
       \<and> (\<not> list_ex (of_file file_path) candidates \<longrightarrow>
            selection_from_payload payload candidates
              = Inl (ValueError ''Gemini selected a file that is not part of the candidate list''))"
proof (intro conjI impI)
  assume "list_ex (holds_line file_path line) candidates"
  then obtain c where c: "find (holds_line file_path line) candidates = Some c"
    by (cases "find (holds_line file_path line) candidates") (auto simp: find_None_iff list_ex_iff)
  then have "holds_line file_path line c" by (auto simp: find_Some_iff)
  then show "\<exists>sel. selection_from_payload payload candidates = Inr sel
               \<and> sel_source sel = ''gemini'' \<and> sel_file sel = file_path \<and> sel_line sel = line"
    using c by (simp add: selection_valid_payload [OF v] holds_line_def)
next
  assume a: "\<not> list_ex (holds_line file_path line) candidates \<and> list_ex (of_file file_path) candidates"
  then have n: "find (holds_line file_path line) candidates = None"
    by (auto simp: find_None_iff list_ex_iff)
  from a obtain c cs where f: "filter (of_file file_path) candidates = c # cs"
    by (cases "filter (of_file file_path) candidates") (auto simp: list_ex_iff filter_empty_conv)
  let ?m = "max_by qm_score c cs"
  have min: "?m \<in> set (filter (of_file file_path) candidates)"
    unfolding f by (rule max_by_in)
  then have m1: "?m \<in> set candidates" and m2: "of_file file_path ?m" by auto
  have m3: "list_all (\<lambda>c'. of_file file_path c' \<longrightarrow> qm_score c' \<le> qm_score ?m) candidates"
  proof -
    have "\<And>c'. c' \<in> set candidates \<Longrightarrow> of_file file_path c' \<Longrightarrow> qm_score c' \<le> qm_score ?m"
    proof -
      fix c' assume "c' \<in> set candidates" "of_file file_path c'"
      then have "c' \<in> set (c # cs)" unfolding f [symmetric] by simp
      then show "qm_score c' \<le> qm_score ?m" by (rule max_by_ge)
    qed
    then show ?thesis by (auto simp: list_all_iff)
  qed
  have "selection_from_payload payload candidates =
      Inr \<lparr>sel_file = ch_file_path (qm_chunk ?m), sel_line = ch_start_line (qm_chunk ?m),
           sel_reason = py_strip reason, sel_source = ''gemini''\<rparr>"
    by (simp add: selection_valid_payload [OF v] n f)
  then show "\<exists>sel. selection_from_payload payload candidates = Inr sel
               \<and> sel_source sel = ''gemini'' \<and> sel_file sel = file_path
               \<and> (\<exists>c. c \<in> set candidates \<and> of_file file_path c
                     \<and> list_all (\<lambda>c'. of_file file_path c' \<longrightarrow> qm_score c' \<le> qm_score c) candidates
                     \<and> sel_line sel = ch_start_line (qm_chunk c))"
    using m1 m2 m3 by (auto simp: of_file_def)
next
  assume a: "\<not> list_ex (of_file file_path) candidates"
  then have f: "filter (of_file file_path) candidates = []"
    by (auto simp: list_ex_iff filter_empty_conv)
  have "\<not> list_ex (holds_line file_path line) candidates"
    using a by (auto simp: list_ex_iff holds_line_def of_file_def)
  then have n: "find (holds_line file_path line) candidates = None"
    by (auto simp: find_None_iff list_ex_iff)
  show "selection_from_payload payload candidates
          = Inl (ValueError ''Gemini selected a file that is not part of the candidate list'')"
    by (simp add: selection_valid_payload [OF v] n f)
qed

lemma rerank_call_answer:
  assumes "answers_with self payload latency"
  shows "fst (rerank_call lib self best candidates q rq lat0) =
     (case selection_from_payload payload candidates of
        Inl exc \<Rightarrow>
          if caught_by_rerank exc
          then Inr (Some (fallback_decision lib self best rq exc (lat0 + latency)))
          else Inl exc
      | Inr selection \<Rightarrow>
          Inr (Some \<lparr>rd_selection = selection, rd_used_gemini = True,
                      rd_gemini_model = Some (gr_model_name self),
                      rd_gemini_latency_ms = Some (lat0 + latency),
                      rd_rewritten_query = rq\<rparr>))"
  using assms by (simp add: rerank_call_def answers_with_def Let_def split: sum.split)

lemma decide_low_confidence:
  assumes "qm_vector_score best < gr_threshold self" and "rewrite_recoverable self query"
  shows "\<exists>q rq lat0. fst (decide lib self query (best # others))
           = fst (rerank_call lib self best (slice_to (gr_max_candidates self) (best # others)) q rq lat0)"
proof (cases "gr_enable_rewrite self")
  case False
  then have "fst (decide lib self query (best # others))
      = fst (rerank_call lib self best (slice_to (gr_max_candidates self) (best # others)) query None 0)"
    using assms(1) by (simp add: decide_def Let_def del: slice_to.simps)
  then show ?thesis by blast
next
  case True
  show ?thesis
  proof (cases "gc_rewrite_query (gr_client self) (REWRITE_PROMPT query) (gr_model_name self)")
    case (Inl exc)
    with assms(2) True have "is_GeminiClientError exc" by (simp add: rewrite_recoverable_def)
    then have "fst (decide lib self query (best # others))
      = fst (rerank_call lib self best (slice_to (gr_max_candidates self) (best # others)) query None 0)"
      using assms(1) True Inl by (simp add: decide_def Let_def case_prod_beta del: slice_to.simps)
    then show ?thesis by blast
  next
    case (Inr r)
    then have "fst (decide lib self query (best # others))
      = fst (rerank_call lib self best (slice_to (gr_max_candidates self) (best # others))
               (fst r) (Some (fst r)) (snd r))"
      using assms(1) True by (simp add: decide_def Let_def case_prod_beta del: slice_to.simps)
    then show ?thesis by blast
  qed
qed

text \<open>
  C4. When the LLM reranker runs and the LLM returns a payload \<^verbatim>\<open>{file, line, reason}\<close>:
  if some candidate has that file path and the line falls inside its line range, the
  selection is that file at the given line; if candidates of that file exist but the line
  falls inside none of them, the selection snaps to the start line of a highest-scoring
  candidate of that file; if no candidate has that file path, \<^verbatim>\<open>decide\<close> returns the top
  vector candidate (its file path and start line) with \<^verbatim>\<open>used_gemini\<close> false and a reason
  that contains \<^verbatim>\<open>rerank failed\<close>. The candidates are the first \<^verbatim>\<open>max_candidates\<close> matches.
\<close>

theorem llm_payload_validation:
  assumes low: "qm_vector_score best < gr_threshold self"
    and rw: "rewrite_recoverable self query"
    and ans: "answers_with self payload latency"
    and v: "valid_payload payload file_path line reason"
  shows "\<exists>d. fst (decide lib self query (best # others)) = Inr (Some d)
     \<and> (list_ex (holds_line file_path line) (slice_to (gr_max_candidates self) (best # others)) \<longrightarrow>
          rd_used_gemini d \<and> sel_source (rd_selection d) = ''gemini''
          \<and> sel_file (rd_selection d) = file_path \<and> sel_line (rd_selection d) = line)
     \<and> (\<not> list_ex (holds_line file_path line) (slice_to (gr_max_candidates self) (best # others))
        \<and> list_ex (of_file file_path) (slice_to (gr_max_candidates self) (best # others)) \<longrightarrow>
          rd_used_gemini d \<and> sel_source (rd_selection d) = ''gemini''
          \<and> sel_file (rd_selection d) = file_path
          \<and> (\<exists>c. c \<in> set (slice_to (gr_max_candidates self) (best # others)) \<and> of_file file_path c
                \<and> list_all (\<lambda>c'. of_file file_path c' \<longrightarrow> qm_score c' \<le> qm_score c)
                     (slice_to (gr_max_candidates self) (best # others))
                \<and> sel_line (rd_selection d) = ch_start_line (qm_chunk c)))
     \<and> (\<not> list_ex (of_file file_path) (slice_to (gr_max_candidates self) (best # others)) \<longrightarrow>
          \<not> rd_used_gemini d \<and> sel_source (rd_selection d) = ''vector''
          \<and> sel_file (rd_selection d) = ch_file_path (qm_chunk best)
          \<and> sel_line (rd_selection d) = ch_start_line (qm_chunk best)
          \<and> contains (sel_reason (rd_selection d)) ''rerank failed'')"
proof -
  let ?cands = "slice_to (gr_max_candidates self) (best # others)"
  from decide_low_confidence [OF low rw] obtain q rq lat0 where
    d: "fst (decide lib self query (best # others)) = fst (rerank_call lib self best ?cands q rq lat0)"
    by blast
  note rc = rerank_call_answer [OF ans, of lib best ?cands q rq lat0]
  note sc = selection_cases [OF v, of ?cands]
  consider (hit) "list_ex (holds_line file_path line) ?cands"
    | (snap) "\<not> list_ex (holds_line file_path line) ?cands" "list_ex (of_file file_path) ?cands"
    | (miss) "\<not> list_ex (of_file file_path) ?cands"
    by blast
  then show ?thesis
  proof cases
    case hit
    then have f: "list_ex (of_file file_path) ?cands"
      by (auto simp: list_ex_iff holds_line_def of_file_def)
    from hit sc obtain sel where s: "selection_from_payload payload ?cands = Inr sel"
      "sel_source sel = ''gemini''" "sel_file sel = file_path" "sel_line sel = line"
      by blast
    show ?thesis
      unfolding d rc s(1) using hit f s(2-4) by simp
  next
    case snap
    with sc obtain sel where s: "selection_from_payload payload ?cands = Inr sel"
      "sel_source sel = ''gemini''" "sel_file sel = file_path"
      "\<exists>c. c \<in> set ?cands \<and> of_file file_path c
           \<and> list_all (\<lambda>c'. of_file file_path c' \<longrightarrow> qm_score c' \<le> qm_score c) ?cands
           \<and> sel_line sel = ch_start_line (qm_chunk c)"
      by blast
    show ?thesis
      unfolding d rc s(1) using snap s(2-4) by simp
  next
    case miss
    then have h: "\<not> list_ex (holds_line file_path line) ?cands"
      by (auto simp: list_ex_iff holds_line_def of_file_def)
    from miss sc have s: "selection_from_payload payload ?cands
        = Inl (ValueError ''Gemini selected a file that is not part of the candidate list'')"
      by blast
    show ?thesis
      unfolding d rc s using miss h
      by (simp add: fallback_reason_contains) (simp add: fallback_decision_def vector_selection_def)
  qed
qed

theorem llm_payload_validation_witness:
  "\<exists>d. fst (decide demo_lib (fake_reranker missing_payload) ''where is score computed''
              [make_match ''src/top.py'' 10 20 0.4]) = Inr (Some d)
     \<and> \<not> rd_used_gemini d \<and> sel_file (rd_selection d) = ''src/top.py''
     \<and> sel_line (rd_selection d) = 10
     \<and> contains (sel_reason (rd_selection d)) ''rerank failed''"
proof -
  have low: "qm_vector_score (make_match ''src/top.py'' 10 20 0.4) < gr_threshold (fake_reranker missing_payload)"
    by (simp add: make_match_def fake_reranker_def GeminiReranker_init_def)
  have rw: "rewrite_recoverable (fake_reranker missing_payload) ''where is score computed''"
    by (simp add: rewrite_recoverable_def fake_reranker_def GeminiReranker_init_def)
  have ans: "answers_with (fake_reranker missing_payload) missing_payload 42"
    by (simp add: answers_with_def fake_reranker_def GeminiReranker_init_def fake_client_def)
  have s1: "py_strip ''src/missing.py'' \<noteq> []" by code_simp
  have s2: "py_strip ''wrong'' \<noteq> []" by code_simp
  have v: "valid_payload missing_payload ''src/missing.py'' 99 ''wrong''"
    using s1 s2 by (simp add: valid_payload_def missing_payload_def)
  have miss: "\<not> list_ex (of_file ''src/missing.py'')
      (slice_to (gr_max_candidates (fake_reranker missing_payload)) [make_match ''src/top.py'' 10 20 0.4])"
    by (simp add: of_file_def fake_reranker_def GeminiReranker_init_def make_match_def)
  from llm_payload_validation [OF low rw ans v, of demo_lib "[]"] miss
  show ?thesis by (auto simp: make_match_def)
qed

section \<open>Vector store\<close>

lemma demo_collection_name: "collection_name demo_lib ''/repo'' = ''ainav_sha1:/repo''"
  by (simp add: collection_name_def demo_lib_def)

lemma search_demo:
  "QdrantVectorStore_search demo_lib (demo_qdrant answer) ''/repo'' [1, 0] limit
     = (case answer of Inl (ValueError m) \<Rightarrow> Inl SHAPE_MISMATCH | Inl exc \<Rightarrow> Inl exc
        | Inr points \<Rightarrow> Inr (map (hit_of_point demo_lib) points))"
  by (simp add: QdrantVectorStore_search_def demo_qdrant_def demo_collection_name
      demo_collection_def len_def split: sum.splits exn.splits)

text \<open>
  C9, as the code has it. \<^verbatim>\<open>QdrantVectorStore.search\<close> returns the empty list when the
  collection of the repository does not exist. When the collection exists and its
  configured vector size is known and differs from the length of the query vector, it
  fails with the code \<^verbatim>\<open>INDEX_DIMENSION_MISMATCH\<close> and both dimensions in the details.
  Otherwise it asks the client: a client with neither \<^verbatim>\<open>search\<close> nor \<^verbatim>\<open>query_points\<close>
  gives a \<^verbatim>\<open>RuntimeError\<close>; the points of an answer become one triple each; a
  \<^verbatim>\<open>ValueError\<close> of the client becomes \<^verbatim>\<open>INDEX_DIMENSION_MISMATCH\<close> with empty details;
  any other exception of the client is raised as it is.
\<close>

theorem search_outcomes:
  "(map_of (qd_collections client) (collection_name lib repo_path) = None \<longrightarrow>
      QdrantVectorStore_search lib client repo_path query_vector limit = Inr [])
   \<and> (\<forall>collection. map_of (qd_collections client) (collection_name lib repo_path) = Some collection \<longrightarrow>
        (\<forall>n. collection_vector_size (qc_vectors collection) = Some n \<and> n \<noteq> len query_vector \<longrightarrow>
             (\<exists>exc. QdrantVectorStore_search lib client repo_path query_vector limit = Inl exc
                \<and> error_code exc = Some ''INDEX_DIMENSION_MISMATCH''
                \<and> map_of (error_details exc) ''index_dim'' = Some (JInt n)
                \<and> map_of (error_details exc) ''model_dim'' = Some (JInt (len query_vector))))
      \<and> (collection_vector_size (qc_vectors collection) = None
          \<or> collection_vector_size (qc_vectors collection) = Some (len query_vector) \<longrightarrow>
             (qd_api client = NoSearchApi \<longrightarrow>
                (\<exists>m. QdrantVectorStore_search lib client repo_path query_vector limit = Inl (RuntimeError m)))
           \<and> (qd_api client \<noteq> NoSearchApi \<longrightarrow>
                (\<forall>points. qd_search client collection query_vector limit = Inr points \<longrightarrow>
                   (\<exists>hits. QdrantVectorStore_search lib client repo_path query_vector limit = Inr hits
                      \<and> map triple_of_hit hits = map (triple_of_hit \<circ> hit_of_point lib) points))
              \<and> (\<forall>m. qd_search client collection query_vector limit = Inl (ValueError m) \<longrightarrow>
                   (\<exists>exc. QdrantVectorStore_search lib client repo_path query_vector limit = Inl exc
                      \<and> error_code exc = Some ''INDEX_DIMENSION_MISMATCH''
                      \<and> error_details exc = []))
              \<and> (\<forall>exc. qd_search client collection query_vector limit = Inl exc
                        \<and> (\<forall>m. exc \<noteq> ValueError m) \<longrightarrow>
                     QdrantVectorStore_search lib client repo_path query_vector limit = Inl exc))))"
proof -
  define found where "found = map_of (qd_collections client) (collection_name lib repo_path)"
  define result where "result = QdrantVectorStore_search lib client repo_path query_vector limit"
  have "(found = None \<longrightarrow> result = Inr [])
       \<and> (\<forall>collection. found = Some collection \<longrightarrow>
            (\<forall>n. collection_vector_size (qc_vectors collection) = Some n \<and> n \<noteq> len query_vector \<longrightarrow>
                 (\<exists>exc. result = Inl exc \<and> error_code exc = Some ''INDEX_DIMENSION_MISMATCH''
                    \<and> map_of (error_details exc) ''index_dim'' = Some (JInt n)
                    \<and> map_of (error_details exc) ''model_dim'' = Some (JInt (len query_vector))))
          \<and> (collection_vector_size (qc_vectors collection) = None
              \<or> collection_vector_size (qc_vectors collection) = Some (len query_vector) \<longrightarrow>
                 (qd_api client = NoSearchApi \<longrightarrow> (\<exists>m. result = Inl (RuntimeError m)))
               \<and> (qd_api client \<noteq> NoSearchApi \<longrightarrow>
                    (\<forall>points. qd_search client collection query_vector limit = Inr points \<longrightarrow>
                       (\<exists>hits. result = Inr hits
                          \<and> map triple_of_hit hits = map (triple_of_hit \<circ> hit_of_point lib) points))
                  \<and> (\<forall>m. qd_search client collection query_vector limit = Inl (ValueError m) \<longrightarrow>
                       (\<exists>exc. result = Inl exc \<and> error_code exc = Some ''INDEX_DIMENSION_MISMATCH''
                          \<and> error_details exc = []))
                  \<and> (\<forall>exc. qd_search client collection query_vector limit = Inl exc
                            \<and> (\<forall>m. exc \<noteq> ValueError m) \<longrightarrow> result = Inl exc))))"
  proof (cases found)
  case None
  then show ?thesis
    unfolding found_def result_def by (simp add: QdrantVectorStore_search_def)
next
  case (Some collection)
  have mismatch: "\<exists>exc. result = Inl exc \<and> error_code exc = Some ''INDEX_DIMENSION_MISMATCH''
                    \<and> map_of (error_details exc) ''index_dim'' = Some (JInt n)
                    \<and> map_of (error_details exc) ''model_dim'' = Some (JInt (len query_vector))"
    if "collection_vector_size (qc_vectors collection) = Some n" "n \<noteq> len query_vector" for n
    using that Some unfolding found_def result_def
    by (simp add: QdrantVectorStore_search_def Let_def DIMENSION_MISMATCH_def)
  have run: "result = (case qd_api client of
                   NoSearchApi \<Rightarrow>
                     Inl (RuntimeError ''Unsupported qdrant-client version: missing search/query_points'')
                 | api \<Rightarrow>
                     (case qd_search client collection query_vector limit of
                        Inl (ValueError m) \<Rightarrow> Inl SHAPE_MISMATCH
                      | Inl exc \<Rightarrow> Inl exc
                      | Inr points \<Rightarrow> Inr (map (hit_of_point lib) points)))"
    if "collection_vector_size (qc_vectors collection) = None
        \<or> collection_vector_size (qc_vectors collection) = Some (len query_vector)"
    using that Some unfolding found_def result_def
    by (auto simp add: QdrantVectorStore_search_def Let_def)
  have answered: "(qd_api client = NoSearchApi \<longrightarrow> (\<exists>m. result = Inl (RuntimeError m)))
               \<and> (qd_api client \<noteq> NoSearchApi \<longrightarrow>
                    (\<forall>points. qd_search client collection query_vector limit = Inr points \<longrightarrow>
                       (\<exists>hits. result = Inr hits
                          \<and> map triple_of_hit hits = map (triple_of_hit \<circ> hit_of_point lib) points))
                  \<and> (\<forall>m. qd_search client collection query_vector limit = Inl (ValueError m) \<longrightarrow>
                       (\<exists>exc. result = Inl exc \<and> error_code exc = Some ''INDEX_DIMENSION_MISMATCH''
                          \<and> error_details exc = []))
                  \<and> (\<forall>exc. qd_search client collection query_vector limit = Inl exc
                            \<and> (\<forall>m. exc \<noteq> ValueError m) \<longrightarrow> result = Inl exc))"
    if "collection_vector_size (qc_vectors collection) = None
        \<or> collection_vector_size (qc_vectors collection) = Some (len query_vector)"
    unfolding run [OF that]
    by (cases "qd_api client") (auto simp add: SHAPE_MISMATCH_def split: exn.splits)
    from Some mismatch answered show ?thesis by simp
  qed
  then show ?thesis unfolding found_def result_def .
qed

theorem search_outcomes_witness:
  "map_of (qd_collections (demo_qdrant (Inr []))) (collection_name demo_lib ''/repo'') = Some demo_collection
   \<and> collection_vector_size (qc_vectors demo_collection) = Some 2 \<and> 2 \<noteq> len [1, 0, 0 :: real]
   \<and> (\<exists>exc. QdrantVectorStore_search demo_lib (demo_qdrant (Inr [])) ''/repo'' [1, 0, 0] 5 = Inl exc
         \<and> error_code exc = Some ''INDEX_DIMENSION_MISMATCH''
         \<and> map_of (error_details exc) ''index_dim'' = Some (JInt 2)
         \<and> map_of (error_details exc) ''model_dim'' = Some (JInt 3))"
proof -
  have f: "map_of (qd_collections (demo_qdrant (Inr []))) (collection_name demo_lib ''/repo'') = Some demo_collection"
    by (simp add: demo_qdrant_def demo_collection_name)
  have s: "collection_vector_size (qc_vectors demo_collection) = Some 2"
    by (simp add: demo_collection_def)
  have n: "2 \<noteq> len [1, 0, 0 :: real]" "len [1, 0, 0 :: real] = 3" by (simp_all add: len_def)
  from search_outcomes [of "demo_qdrant (Inr [])" demo_lib "''/repo''" "[1, 0, 0]" 5] f s n
  show ?thesis by simp
qed

text \<open>
  C9 as stated fails on an input outside its two special cases: the collection exists
  with the dimension of the query vector, the client raises a \<^verbatim>\<open>ValueError\<close>, and the
  search fails with \<^verbatim>\<open>INDEX_DIMENSION_MISMATCH\<close> and no details instead of returning
  triples.
\<close>

theorem search_shape_error_counterexample:
  "map_of (qd_collections (demo_qdrant (Inl (ValueError ''shapes not aligned''))))
          (collection_name demo_lib ''/repo'') = Some demo_collection
   \<and> collection_vector_size (qc_vectors demo_collection) = Some (len [1, 0 :: real])
   \<and> QdrantVectorStore_search demo_lib (demo_qdrant (Inl (ValueError ''shapes not aligned''))) ''/repo'' [1, 0] 5
       = Inl (AinavError ''INDEX_DIMENSION_MISMATCH''
                (''Indexed vectors are incompatible with current embedding model. ''
                 @ ''Run `xtrc index <repo> --rebuild`.'') 409 [])"
proof (intro conjI)
  show "map_of (qd_collections (demo_qdrant (Inl (ValueError ''shapes not aligned''))))
          (collection_name demo_lib ''/repo'') = Some demo_collection"
    by (simp add: demo_qdrant_def demo_collection_name)
  show "collection_vector_size (qc_vectors demo_collection) = Some (len [1, 0 :: real])"
    by (simp add: demo_collection_def len_def)
  show "QdrantVectorStore_search demo_lib (demo_qdrant (Inl (ValueError ''shapes not aligned''))) ''/repo'' [1, 0] 5
       = Inl (AinavError ''INDEX_DIMENSION_MISMATCH''
                (''Indexed vectors are incompatible with current embedding model. ''
                 @ ''Run `xtrc index <repo> --rebuild`.'') 409 [])"
    by (simp add: search_demo SHAPE_MISMATCH_def)
qed

section \<open>Query engine\<close>

subsection \<open>Slices and the descending sort\<close>

lemma slice_to_take: "slice_to n xs = take (nat n) xs"
proof (induction xs arbitrary: n)
  case Nil
  show ?case by simp
next
  case (Cons x xs)
  show ?case
  proof (cases "n \<le> 0")
    case True
    then show ?thesis by simp
  next
    case False
    then have "nat n = Suc (nat (n - 1))" by simp
    with False Cons show ?thesis by simp
  qed
qed

lemma slice_from_drop: "slice_from n xs = drop (nat n) xs"
proof (induction xs arbitrary: n)
  case Nil
  show ?case by simp
next
  case (Cons x xs)
  show ?case
  proof (cases "n \<le> 0")
    case True
    then show ?thesis by simp
  next
    case False
    then have "nat n = Suc (nat (n - 1))" by simp
    with False Cons show ?thesis by simp
  qed
qed

lemma length_sort_desc [simp]: "length (sort_desc key xs) = length xs"
  by (simp add: sort_desc_def)

lemma set_sort_desc [simp]: "set (sort_desc key xs) = set xs"
  by (simp add: sort_desc_def)

lemma sort_desc_head_max:
  assumes "i < length xs"
  shows "key (sort_desc key xs ! i) \<le> key (sort_desc key xs ! 0)"
proof -
  define ys where "ys = sort_key key (rev xs)"
  have len: "length ys = length xs" by (simp add: ys_def)
  have srt: "sorted (map key ys)" by (simp add: ys_def)
  have "sort_desc key xs ! i = ys ! (length ys - Suc i)"
    using assms len by (simp add: sort_desc_def ys_def [symmetric] rev_nth)
  moreover have "0 < length ys" using assms len by linarith
  then have "rev ys ! 0 = ys ! (length ys - Suc 0)"
    by (rule rev_nth)
  then have "sort_desc key xs ! 0 = ys ! (length ys - Suc 0)"
    by (simp only: sort_desc_def ys_def [symmetric])
  moreover have "map key ys ! (length ys - Suc i) \<le> map key ys ! (length ys - Suc 0)"
    using assms len by (intro sorted_nth_mono [OF srt]) auto
  ultimately show ?thesis using assms len by simp
qed

lemma match_key_score: "match_key a \<le> match_key b \<Longrightarrow> qm_score a \<le> qm_score b"
  by (auto simp add: match_key_def less_eq_prod_def)

lemma rank_hits_head_max:
  assumes "i < length (rank_hits lib self q hits)"
  shows "qm_score (rank_hits lib self q hits ! i) \<le> qm_score (rank_hits lib self q hits ! 0)"
  using assms unfolding rank_hits_def Let_def
  by (intro match_key_score sort_desc_head_max) simp

subsection \<open>The local rerank stage\<close>

lemma rerank_cases:
  assumes run: "LocalReranker_rerank lib lr q ms = Inr (out, used)"
  shows "out = ms
       \<or> (lr_enabled lr
          \<and> (\<exists>reranked. length reranked = min (nat (lr_max_candidates lr)) (length ms)
                \<and> out = sort_desc qm_score reranked @ drop (nat (lr_max_candidates lr)) ms))"
proof (cases "\<not> lr_enabled lr \<or> len ms \<le> 1")
  case True
  with run show ?thesis by (simp add: LocalReranker_rerank_def)
next
  case False
  define target where "target = take (nat (lr_max_candidates lr)) ms"
  show ?thesis
  proof (cases "predict_scores lr q target")
    case (Inl exc)
    with run False show ?thesis
      by (simp add: LocalReranker_rerank_def Let_def slice_to_take target_def)
  next
    case (Inr scores)
    define reranked where "reranked = map (\<lambda>(m, s). rescore lib m s) (zip target scores)"
    from run False Inr have same: "length scores = length target"
      and out: "out = sort_desc qm_score reranked @ drop (nat (lr_max_candidates lr)) ms"
      by (auto simp add: LocalReranker_rerank_def Let_def slice_to_take slice_from_drop target_def
          reranked_def split: if_splits)
    have "length reranked = min (nat (lr_max_candidates lr)) (length ms)"
      using same by (simp add: reranked_def target_def min.commute)
    with out False show ?thesis by blast
  qed
qed

lemma local_rerank_stage_cases:
  assumes run: "local_rerank_stage lib local_reranker q ms = Inr out"
  shows "out = ms
       \<or> (\<exists>lr reranked. local_reranker = Some lr \<and> lr_enabled lr
            \<and> length reranked = min (nat (min 10 (lr_max_candidates lr))) (length ms)
            \<and> out = sort_desc qm_score reranked @ drop (length reranked) ms)"
proof (cases local_reranker)
  case None
  with run show ?thesis by (simp add: local_rerank_stage_def)
next
  case (Some lr)
  show ?thesis
  proof (cases "ms = []")
    case True
    with run Some show ?thesis by (simp add: local_rerank_stage_def)
  next
    case False
    define head where "head = take 10 ms"
    have head10: "slice_to 10 ms = head" by (simp add: slice_to_take head_def)
    from run Some False obtain reranked used
      where rr: "LocalReranker_rerank lib lr q head = Inr (reranked, used)"
        and out: "out = (if len ms > 10 then reranked @ drop 10 ms else reranked)"
      by (auto simp add: local_rerank_stage_def head10 slice_from_drop split: sum.splits prod.splits)
    have whole: "(if len ms > 10 then head @ drop 10 ms else head) = ms"
      by (simp add: head_def len_def)
    from rerank_cases [OF rr] show ?thesis
    proof
      assume "reranked = head"
      with out have "out = (if len ms > 10 then head @ drop 10 ms else head)" by simp
      then have "out = ms" by (simp only: whole)
      then show ?thesis by blast
    next
      assume "lr_enabled lr
        \<and> (\<exists>rs. length rs = min (nat (lr_max_candidates lr)) (length head)
              \<and> reranked = sort_desc qm_score rs @ drop (nat (lr_max_candidates lr)) head)"
      then obtain rs where en: "lr_enabled lr"
        and lrs: "length rs = min (nat (lr_max_candidates lr)) (length head)"
        and rer: "reranked = sort_desc qm_score rs @ drop (nat (lr_max_candidates lr)) head"
        by blast
      have l1: "length rs = min (nat (min 10 (lr_max_candidates lr))) (length ms)"
        using lrs by (simp add: head_def)
      have "drop (nat (lr_max_candidates lr)) head @ (if len ms > 10 then drop 10 ms else [])
            = drop (length rs) ms"
      proof -
        have "drop (length rs) ms = drop (length rs) (head @ drop 10 ms)"
          by (simp add: head_def)
        also have "\<dots> = drop (length rs) head @ drop 10 ms"
          using lrs by simp
        also have "drop (length rs) head = drop (nat (lr_max_candidates lr)) head"
          using lrs by (simp add: min_def split: if_splits)
        also have "drop 10 ms = (if len ms > 10 then drop 10 ms else [])"
          by (simp add: len_def)
        finally show ?thesis by simp
      qed
      then have "out = sort_desc qm_score rs @ drop (length rs) ms"
        using out rer by (cases "len ms > 10") simp_all
      with Some en l1 show ?thesis by blast
    qed
  qed
qed

subsection \<open>The selection\<close>

lemma selection_source:
  "selection_from_payload payload candidates = Inr sel \<Longrightarrow> sel_source sel = ''gemini''"
  by (auto simp add: selection_from_payload_def Let_def
      split: option.splits if_splits list.splits)

lemma rerank_call_source:
  assumes "rerank_call lib self best candidates q rq lat0 = (Inr (Some d), calls)"
  shows "calls \<noteq> []
       \<and> (if rd_used_gemini d then sel_source (rd_selection d) = ''gemini''
          else sel_source (rd_selection d) = ''vector'')"
  using assms
  by (auto simp add: rerank_call_def Let_def fallback_decision_def vector_selection_def
      selection_source split: sum.splits prod.splits if_splits)

lemma decide_source:
  assumes "decide lib self q matches = (Inr (Some d), calls)"
  shows "if rd_used_gemini d then sel_source (rd_selection d) = ''gemini'' \<and> calls \<noteq> []
         else sel_source (rd_selection d) = ''vector''"
proof (cases matches)
  case Nil
  with assms show ?thesis by (simp add: decide_def)
next
  case (Cons best others)
  show ?thesis
  proof (cases "gr_threshold self \<le> qm_vector_score best")
    case True
    with assms Cons show ?thesis by (auto simp add: decide_def vector_selection_def)
  next
    case False
    define cands where "cands = slice_to (gr_max_candidates self) (best # others)"
    from assms Cons False
    have "\<exists>q' rq lat0 calls'. rerank_call lib self best cands q' rq lat0 = (Inr (Some d), calls')
            \<and> (calls' \<noteq> [] \<longrightarrow> calls \<noteq> [])"
      by (auto simp add: decide_def Let_def cands_def simp del: slice_to.simps
          split: if_splits sum.splits prod.splits)
    then obtain q' rq lat0 calls'
      where rc: "rerank_call lib self best cands q' rq lat0 = (Inr (Some d), calls')"
        and "calls' \<noteq> [] \<longrightarrow> calls \<noteq> []"
      by blast
    with rerank_call_source [OF rc] show ?thesis by (auto split: if_splits)
  qed
qed

lemma select_match_source:
  assumes "select_match lib reranker q matches rq = (Inr outcome, calls)"
    and "qo_selection outcome = Some sel"
  shows "qo_matches outcome = matches
       \<and> (if qo_used_gemini outcome
          then sel_source sel = ''gemini'' \<and> reranker \<noteq> None \<and> calls \<noteq> []
          else sel_source sel = ''vector'')"
proof (cases matches)
  case Nil
  with assms show ?thesis by (auto simp add: select_match_def)
next
  case (Cons top_match others)
  show ?thesis
  proof (cases reranker)
    case None
    with assms Cons show ?thesis by (auto simp add: select_match_def vector_selection_def)
  next
    case (Some r)
    show ?thesis
    proof (cases "decide lib r q matches")
      case (Pair res calls')
      show ?thesis
      proof (cases res)
        case (Inl exc)
        with assms Cons Some Pair show ?thesis by (simp add: select_match_def)
      next
        case (Inr dec)
        show ?thesis
        proof (cases dec)
          case None
          with assms Cons Some Pair Inr show ?thesis by (auto simp add: select_match_def)
        next
          case (Some d)
          with Pair Inr have "decide lib r q matches = (Inr (Some d), calls')" by simp
          from decide_source [OF this] show ?thesis
            using assms Cons \<open>reranker = Some r\<close> Pair Inr Some
            by (auto simp add: select_match_def split: if_splits)
        qed
      qed
    qed
  qed
qed

lemma query_stages:
  assumes "QueryEngine_query lib self repo_key query_text top_k = (Inr outcome, calls)"
  shows "\<exists>q rq hits matches sel_outcome.
           local_rerank_stage lib (qe_local_reranker self) q (rank_hits lib self q hits) = Inr matches
         \<and> select_match lib (qe_reranker self) q matches rq = (Inr sel_outcome, calls)
         \<and> outcome = sel_outcome\<lparr>qo_matches := slice_to top_k matches\<rparr>"
  using assms
  by (fastforce simp add: QueryEngine_query_def Let_def split: sum.splits prod.splits)

subsection \<open>The engine on the small index\<close>

lemma normalize_terms_ab: "normalize_terms ''ab'' = [''ab'']"
  by code_simp

lemma infer_query_signal_ab:
  "infer_query_signal ''ab'' = \<lparr>qs_intents = [], qs_methods = [], qs_structural_terms = [''ab'']\<rparr>"
  by code_simp

lemma score_ab:
  "0 \<le> v \<Longrightarrow> v \<le> 1 \<Longrightarrow>
   HybridScorer_score ''ab'' v [''ab''] [''ab''] None None None (Some [])
     = (0.5 * v + 0.3, v, 1, 1, 0, 0)"
  by (simp add: HybridScorer_score_def normalize_terms_ab infer_query_signal_ab overlap_score_def
      intent_score_def normalize_vector_score_def truthy_def VECTOR_WEIGHT_def KEYWORD_WEIGHT_def
      SYMBOL_WEIGHT_def INTENT_WEIGHT_def STRUCTURAL_WEIGHT_def)

lemma hit_of_demo_point:
  "hit_of_point lib (demo_point p)
     = \<lparr>sh_chunk_id = fst p, sh_score = snd p, sh_payload = [(''chunk_id'', JStr (fst p))]\<rparr>"
  by (simp add: hit_of_point_def demo_point_def py_str_def)

lemma match_of_demo_hit:
  "0 \<le> snd p \<Longrightarrow> snd p \<le> 1 \<Longrightarrow>
   match_of_hit demo_lib None ''ab'' (hit_of_point demo_lib (demo_point p)) (demo_chunk (fst p))
     = demo_match (fst p) (snd p)"
  by (simp add: match_of_hit_def hit_of_demo_point demo_lib_def demo_match_def)
    (simp add: demo_chunk_def score_ab)

lemma map_of_demo_rows:
  "cid \<in> set cids \<Longrightarrow> map_of (map (\<lambda>cid. (cid, demo_chunk cid)) cids) cid = Some (demo_chunk cid)"
  by (induction cids) auto

lemma rank_demo_hits:
  assumes "\<forall>p \<in> set scored. 0 \<le> snd p \<and> snd p \<le> 1"
  shows "rank_hits demo_lib (demo_engine scored lr rr) ''ab''
           (map (hit_of_point demo_lib \<circ> demo_point) scored)
         = sort_desc match_key (map (\<lambda>p. demo_match (fst p) (snd p)) scored)"
proof -
  let ?hits = "map (hit_of_point demo_lib \<circ> demo_point) scored"
  define rows where "rows = map (\<lambda>cid. (cid, demo_chunk cid)) (map fst scored)"
  have ids: "map sh_chunk_id ?hits = map fst scored"
    by (simp add: hit_of_demo_point comp_def)
  have chunks: "get_chunks_by_ids (qe_metadata_store (demo_engine scored lr rr)) (map sh_chunk_id ?hits)
                = rows"
    unfolding ids rows_def
    by (simp add: get_chunks_by_ids_def demo_engine_def demo_store_def filter_map comp_def)
  have one: "(case map_of rows (sh_chunk_id (hit_of_point demo_lib (demo_point p))) of
                None \<Rightarrow> []
              | Some chunk \<Rightarrow> [match_of_hit demo_lib None ''ab'' (hit_of_point demo_lib (demo_point p)) chunk])
             = [demo_match (fst p) (snd p)]" if "p \<in> set scored" for p
  proof -
    from that have "fst p \<in> set (map fst scored)" by simp
    then have "map_of rows (fst p) = Some (demo_chunk (fst p))"
      unfolding rows_def by (rule map_of_demo_rows)
    moreover have "sh_chunk_id (hit_of_point demo_lib (demo_point p)) = fst p"
      by (simp add: hit_of_demo_point)
    ultimately show ?thesis using that assms by (simp add: match_of_demo_hit)
  qed
  have "map (\<lambda>hit. case map_of rows (sh_chunk_id hit) of
                      None \<Rightarrow> []
                    | Some chunk \<Rightarrow> [match_of_hit demo_lib None ''ab'' hit chunk]) ?hits
        = map (\<lambda>p. [demo_match (fst p) (snd p)]) scored"
    unfolding map_map by (rule map_cong) (simp_all add: one cong: option.case_cong)
  then have "concat (map (\<lambda>hit. case map_of rows (sh_chunk_id hit) of
                      None \<Rightarrow> []
                    | Some chunk \<Rightarrow> [match_of_hit demo_lib None ''ab'' hit chunk]) ?hits)
        = map (\<lambda>p. demo_match (fst p) (snd p)) scored"
    by (simp only: concat_map_singleton)
  moreover have "qe_ranking_heuristics (demo_engine scored lr rr) = None"
    by (simp add: demo_engine_def)
  ultimately show ?thesis
    unfolding rank_hits_def Let_def chunks by (simp only:)
qed

lemma query_demo:
  assumes "\<forall>p \<in> set scored. 0 \<le> snd p \<and> snd p \<le> 1"
  shows "QueryEngine_query demo_lib (demo_engine scored lr rr) ''/repo'' ''ab'' top_k
     = (case local_rerank_stage demo_lib lr ''ab''
               (sort_desc match_key (map (\<lambda>p. demo_match (fst p) (snd p)) scored)) of
          Inl exc \<Rightarrow> (Inl exc, [])
        | Inr matches \<Rightarrow>
            (case select_match demo_lib rr ''ab'' matches None of
               (Inl exc, calls) \<Rightarrow> (Inl exc, calls)
             | (Inr outcome, calls) \<Rightarrow> (Inr (outcome\<lparr>qo_matches := slice_to top_k matches\<rparr>), calls)))"
proof -
  have eng: "qe_query_rewriter (demo_engine scored lr rr) = None"
    "qe_embed_query (demo_engine scored lr rr) = (\<lambda>q. [1, 0])"
    "qe_vector_store (demo_engine scored lr rr) = demo_qdrant (Inr (map demo_point scored))"
    "qe_local_reranker (demo_engine scored lr rr) = lr"
    "qe_reranker (demo_engine scored lr rr) = rr"
    by (simp_all add: demo_engine_def)
  show ?thesis
    unfolding QueryEngine_query_def eng rewrite_stage_def Let_def
    by (simp add: search_demo rank_demo_hits [OF assms])
qed

lemma match_key_demo: "match_key (demo_match cid v) = (0.5 * v + 0.3, v, 1, - 7)"
  by (simp add: match_key_def demo_match_def demo_chunk_def truthy_def)

lemma sigmoid_zero: "sigmoid 0 = 1 / 2"
  by (simp add: sigmoid_def)

lemma score_rescore: "qm_score (rescore lib m s) = 0.7 * qm_score m + 0.3 * sigmoid s"
  by (simp add: rescore_def Let_def)

lemma eleven_in_range: "\<forall>p \<in> set eleven_hits. 0 \<le> snd p \<and> snd p \<le> 1"
  by (simp add: eleven_hits_def)

lemma eleven_ranked:
  "sort_desc match_key (map (\<lambda>p. demo_match (fst p) (snd p)) eleven_hits)
     = map (\<lambda>p. demo_match (fst p) (snd p)) eleven_hits"
  by (simp add: eleven_hits_def sort_desc_def match_key_demo less_eq_prod_def)

lemma eleven_reranked:
  "local_rerank_stage demo_lib (Some (zero_reranker 10)) ''ab''
      (map (\<lambda>p. demo_match (fst p) (snd p)) eleven_hits)
   = Inr (map (\<lambda>p. rescore demo_lib (demo_match (fst p) (snd p)) 0) (take 10 eleven_hits)
          @ [demo_match ''c10'' 0.9])"
  by (simp add: local_rerank_stage_def LocalReranker_rerank_def zero_reranker_def
      LocalReranker_init_def predict_scores_def eleven_hits_def len_def Let_def
      sort_desc_def score_rescore sigmoid_zero demo_match_def [of _ _, THEN arg_cong [where f = qm_score]])

lemma eleven_scores:
  "returned_scores (QueryEngine_query demo_lib (demo_engine eleven_hits (Some (zero_reranker 10)) None)
                      ''/repo'' ''ab'' 50)
   = [0.71, 0.675, 0.675, 0.675, 0.675, 0.675, 0.675, 0.675, 0.675, 0.675, 0.75]"
  unfolding query_demo [OF eleven_in_range] eleven_ranked eleven_reranked
  by (simp add: returned_scores_def select_match_def eleven_hits_def score_rescore sigmoid_zero
      demo_match_def [of _ _, THEN arg_cong [where f = qm_score]])

lemma strip_c0: "py_strip ''c0.py'' = ''c0.py''"
  by code_simp

lemma strip_best: "py_strip ''best match'' = ''best match''"
  by code_simp

lemma demo_payload_valid: "valid_payload demo_payload ''c0.py'' 2 ''best match''"
  by (simp add: valid_payload_def demo_payload_def strip_c0 strip_best)

lemma demo_rerank_selection:
  "map_sum id qo_selection
     (fst (QueryEngine_query demo_lib (demo_engine [(''c0'', 0.5)] None (Some (fake_reranker demo_payload)))
             ''/repo'' ''ab'' 8))
   = Inr (Some \<lparr>sel_file = ''c0.py'', sel_line = 2, sel_reason = ''best match'', sel_source = ''gemini''\<rparr>)"
proof -
  have rng: "\<forall>p \<in> set [(''c0'', 0.5::real)]. 0 \<le> snd p \<and> snd p \<le> 1" by simp
  have ans: "answers_with (fake_reranker demo_payload) demo_payload 42"
    by (simp add: answers_with_def fake_reranker_def GeminiReranker_init_def fake_client_def)
  have sel: "selection_from_payload demo_payload [demo_match ''c0'' 0.5]
      = Inr \<lparr>sel_file = ''c0.py'', sel_line = 2, sel_reason = ''best match'', sel_source = ''gemini''\<rparr>"
    by (simp add: selection_valid_payload [OF demo_payload_valid] holds_line_def demo_match_def
        demo_chunk_def strip_best)
  have dec: "fst (decide demo_lib (fake_reranker demo_payload) ''ab'' [demo_match ''c0'' 0.5])
      = fst (rerank_call demo_lib (fake_reranker demo_payload) (demo_match ''c0'' 0.5)
               [demo_match ''c0'' 0.5] ''ab'' None 0)"
    by (simp add: decide_def Let_def fake_reranker_def GeminiReranker_init_def demo_match_def)
  have "fst (decide demo_lib (fake_reranker demo_payload) ''ab'' [demo_match ''c0'' 0.5])
      = Inr (Some \<lparr>rd_selection = \<lparr>sel_file = ''c0.py'', sel_line = 2, sel_reason = ''best match'',
                                    sel_source = ''gemini''\<rparr>,
                    rd_used_gemini = True, rd_gemini_model = Some ''gemini-1.5-flash'',
                    rd_gemini_latency_ms = Some 42, rd_rewritten_query = None\<rparr>)"
    unfolding dec rerank_call_answer [OF ans] sel
    by (simp add: fake_reranker_def GeminiReranker_init_def)
  then obtain calls where
    "decide demo_lib (fake_reranker demo_payload) ''ab'' [demo_match ''c0'' 0.5]
      = (Inr (Some \<lparr>rd_selection = \<lparr>sel_file = ''c0.py'', sel_line = 2, sel_reason = ''best match'',
                                    sel_source = ''gemini''\<rparr>,
                    rd_used_gemini = True, rd_gemini_model = Some ''gemini-1.5-flash'',
                    rd_gemini_latency_ms = Some 42, rd_rewritten_query = None\<rparr>), calls)"
    by (cases "decide demo_lib (fake_reranker demo_payload) ''ab'' [demo_match ''c0'' 0.5]") simp
  then show ?thesis
    unfolding query_demo [OF rng]
    by (simp add: local_rerank_stage_def sort_desc_def select_match_def)
qed

subsection \<open>Order of the returned matches\<close>

text \<open>
  C2, as the code has it. In the list of matches that \<^verbatim>\<open>QueryEngine.query\<close> returns, the
  score of the first match is greater than or equal to the score of every returned match
  inside the window of the local reranker (the first \<open>min 10 max_candidates\<close> matches), and
  of every returned match when no local reranker is configured and enabled. The matches
  after the window keep their scores of before the rerank.
\<close>

theorem top_match_score_in_window:
  assumes run: "QueryEngine_query lib self repo_key query_text top_k = (Inr outcome, calls)"
    and i: "i < length (qo_matches outcome)"
    and w: "in_window self i"
  shows "qm_score (qo_matches outcome ! i) \<le> qm_score (qo_matches outcome ! 0)"
proof -
  from query_stages [OF run] obtain q rq hits matches sel_outcome
    where st: "local_rerank_stage lib (qe_local_reranker self) q (rank_hits lib self q hits) = Inr matches"
      and out: "outcome = sel_outcome\<lparr>qo_matches := slice_to top_k matches\<rparr>"
    by blast
  let ?ranked = "rank_hits lib self q hits"
  have ms: "qo_matches outcome = take (nat top_k) matches"
    using out by (simp add: slice_to_take)
  with i have i1: "i < nat top_k" and i2: "i < length matches" by simp_all
  have "qm_score (matches ! i) \<le> qm_score (matches ! 0)"
    using local_rerank_stage_cases [OF st]
  proof
    assume "matches = ?ranked"
    with i2 show ?thesis by (simp add: rank_hits_head_max)
  next
    assume "\<exists>lr reranked. qe_local_reranker self = Some lr \<and> lr_enabled lr
            \<and> length reranked = min (nat (min 10 (lr_max_candidates lr))) (length ?ranked)
            \<and> matches = sort_desc qm_score reranked @ drop (length reranked) ?ranked"
    then obtain lr reranked where lr: "qe_local_reranker self = Some lr" "lr_enabled lr"
      and len: "length reranked = min (nat (min 10 (lr_max_candidates lr))) (length ?ranked)"
      and m: "matches = sort_desc qm_score reranked @ drop (length reranked) ?ranked"
      by blast
    from w lr have "i < nat (min 10 (lr_max_candidates lr))"
      by (simp add: in_window_def rerank_window_def)
    moreover have "length matches = length ?ranked" using m len by simp
    ultimately have ir: "i < length reranked" using len i2 by simp
    then have "reranked \<noteq> []" by auto
    with ir show ?thesis
      using sort_desc_head_max [of i reranked qm_score] m by (simp add: nth_append)
  qed
  with ms i1 show ?thesis by simp
qed

theorem top_match_score_in_window_witness:
  "\<exists>outcome calls.
      QueryEngine_query demo_lib (demo_engine eleven_hits (Some (zero_reranker 10)) None)
        ''/repo'' ''ab'' 50 = (Inr outcome, calls)
    \<and> 9 < length (qo_matches outcome)
    \<and> in_window (demo_engine eleven_hits (Some (zero_reranker 10)) None) 9
    \<and> qm_score (qo_matches outcome ! 9) \<le> qm_score (qo_matches outcome ! 0)"
proof -
  let ?engine = "demo_engine eleven_hits (Some (zero_reranker 10)) None"
  obtain res calls where r: "QueryEngine_query demo_lib ?engine ''/repo'' ''ab'' 50 = (res, calls)"
    by (cases "QueryEngine_query demo_lib ?engine ''/repo'' ''ab'' 50")
  with eleven_scores obtain outcome where o: "res = Inr outcome"
    and s: "map qm_score (qo_matches outcome)
            = [0.71, 0.675, 0.675, 0.675, 0.675, 0.675, 0.675, 0.675, 0.675, 0.675, 0.75]"
    by (cases res) (simp_all add: returned_scores_def)
  from s have "length (map qm_score (qo_matches outcome)) = 11" by simp
  then have n: "9 < length (qo_matches outcome)" by simp
  have w: "in_window ?engine 9"
    by (simp add: in_window_def rerank_window_def demo_engine_def zero_reranker_def
        LocalReranker_init_def)
  from top_match_score_in_window [OF r [unfolded o] n w] r o n w show ?thesis by blast
qed

text \<open>
  C2 as stated fails with the local reranker enabled: of eleven hits the first ten are
  rescored to \<open>0.7 * score + 0.3 * sigmoid 0\<close>, the eleventh keeps its score 0.75, above
  the 0.71 of the first returned match.
\<close>

theorem top_match_score_counterexample:
  "returned_scores (QueryEngine_query demo_lib (demo_engine eleven_hits (Some (zero_reranker 10)) None)
                      ''/repo'' ''ab'' 50) ! 0
   < returned_scores (QueryEngine_query demo_lib (demo_engine eleven_hits (Some (zero_reranker 10)) None)
                      ''/repo'' ''ab'' 50) ! 10"
  by (simp add: eleven_scores)

subsection \<open>Source of the selection\<close>

text \<open>
  C6, as the code has it. The selection of a query has the source \<^verbatim>\<open>vector\<close> or
  \<^verbatim>\<open>gemini\<close>. It is \<^verbatim>\<open>gemini\<close> exactly when the outcome reports \<^verbatim>\<open>used_gemini\<close>, which takes
  a configured LLM reranker and a call to its client; with the reranker disabled, on the
  high-confidence bypass and on the fallback after a failed rerank it is \<^verbatim>\<open>vector\<close>.
\<close>

theorem selection_source_vector_or_gemini:
  assumes "QueryEngine_query lib self repo_key query_text top_k = (Inr outcome, calls)"
    and "qo_selection outcome = Some sel"
  shows "(sel_source sel = ''vector'' \<or> sel_source sel = ''gemini'')
       \<and> (sel_source sel = ''gemini'' \<longleftrightarrow> qo_used_gemini outcome)
       \<and> (qe_reranker self = None \<or> calls = [] \<longrightarrow> sel_source sel = ''vector'')"
proof -
  from query_stages [OF assms(1)] obtain q rq hits matches sel_outcome
    where st: "local_rerank_stage lib (qe_local_reranker self) q (rank_hits lib self q hits) = Inr matches"
      and sm: "select_match lib (qe_reranker self) q matches rq = (Inr sel_outcome, calls)"
      and out: "outcome = sel_outcome\<lparr>qo_matches := slice_to top_k matches\<rparr>"
    by blast
  from out assms(2) have "qo_selection sel_outcome = Some sel" by simp
  from select_match_source [OF sm this] out show ?thesis
    by (auto split: if_splits)
qed

theorem selection_source_vector_or_gemini_witness:
  "\<exists>outcome calls sel.
      QueryEngine_query demo_lib (demo_engine [(''c0'', 0.5)] None (Some (fake_reranker demo_payload)))
        ''/repo'' ''ab'' 8 = (Inr outcome, calls)
    \<and> qo_selection outcome = Some sel
    \<and> sel_source sel = ''gemini'' \<and> qo_used_gemini outcome \<and> calls \<noteq> []"
proof -
  let ?engine = "demo_engine [(''c0'', 0.5)] None (Some (fake_reranker demo_payload))"
  let ?sel = "\<lparr>sel_file = ''c0.py'', sel_line = 2, sel_reason = ''best match'', sel_source = ''gemini''\<rparr>"
  obtain res calls where r: "QueryEngine_query demo_lib ?engine ''/repo'' ''ab'' 8 = (res, calls)"
    by (cases "QueryEngine_query demo_lib ?engine ''/repo'' ''ab'' 8")
  with demo_rerank_selection obtain outcome where o: "res = Inr outcome"
    and s: "qo_selection outcome = Some ?sel"
    by (cases res) simp_all
  from selection_source_vector_or_gemini [OF r [unfolded o] s] r o s show ?thesis by auto
qed

text \<open>
  C6 as stated fails: the source of a successful LLM rerank is \<^verbatim>\<open>gemini\<close>, not \<^verbatim>\<open>llm\<close>.
\<close>

theorem selection_source_counterexample:
  "map_sum id (map_option sel_source \<circ> qo_selection)
     (fst (QueryEngine_query demo_lib (demo_engine [(''c0'', 0.5)] None (Some (fake_reranker demo_payload)))
             ''/repo'' ''ab'' 8))
   = Inr (Some ''gemini'')"
  using demo_rerank_selection
  by (cases "fst (QueryEngine_query demo_lib (demo_engine [(''c0'', 0.5)] None (Some (fake_reranker demo_payload)))
             ''/repo'' ''ab'' 8)") simp_all

section \<open>Chunk builder\<close>

lemma split_loop_ordered:
  assumes "\<forall>c \<in> set chunks. fst (snd c) \<le> snd (snd c)"
  shows "\<forall>c \<in> set (split_loop self start_line rows chunks current current_tokens block_start).
           fst (snd c) \<le> snd (snd c)"
  using assms
proof (induction rows arbitrary: chunks current current_tokens block_start)
  case Nil
  then show ?case by (auto simp add: len_def)
next
  case (Cons row rows)
  obtain idx line where row: "row = (idx, line)" by (cases row)
  define flush where "flush = (current \<noteq> [] \<and> current_tokens + estimate_tokens line > cb_target_tokens self
                   \<and> current_tokens \<ge> cb_min_tokens self)"
  define chunks1 where "chunks1 = (if flush
                     then chunks @ [(join NL current, block_start, block_start + len current - 1)]
                     else chunks)"
  define block_start1 where "block_start1 = (if flush then start_line + idx else block_start)"
  define current1 where "current1 = (if flush then [] else current) @ [line]"
  define tokens1 where "tokens1 = (if flush then 0 else current_tokens) + estimate_tokens line"
  define end_line where "end_line = block_start1 + len current1 - 1"
  have step: "split_loop self start_line (row # rows) chunks current current_tokens block_start
      = (if tokens1 \<ge> cb_max_tokens self
         then split_loop self start_line rows
                (chunks1 @ [(join NL current1, block_start1, end_line)]) [] 0 (end_line + 1)
         else split_loop self start_line rows chunks1 current1 tokens1 block_start1)"
    unfolding row split_loop.simps Let_def flush_def chunks1_def block_start1_def current1_def
      tokens1_def end_line_def by (rule refl)
  have c1: "\<forall>c \<in> set chunks1. fst (snd c) \<le> snd (snd c)"
    using Cons.prems by (auto simp add: chunks1_def flush_def len_def)
  have "block_start1 \<le> end_line"
    by (simp add: end_line_def current1_def len_def)
  with c1 have c2: "\<forall>c \<in> set (chunks1 @ [(join NL current1, block_start1, end_line)]).
      fst (snd c) \<le> snd (snd c)"
    by auto
  show ?case
    unfolding step using Cons.IH [OF c1] Cons.IH [OF c2] by simp
qed

lemma split_text_ordered:
  "(t, a, b) \<in> set (split_text_by_lines self txt start_line) \<Longrightarrow> a \<le> b"
  using split_loop_ordered [of "[]" self start_line "enumerate_from 0 (splitlines txt)" "[]" 0 start_line]
  by (fastforce simp add: split_text_by_lines_def)

lemma slice_file_fallback_ordered:
  "d \<in> set (slice_file_fallback self lines) \<Longrightarrow> ordered_lines d"
  by (auto simp add: slice_file_fallback_def Let_def ordered_lines_def len_def
      dest: split_text_ordered split: if_splits) (cases lines, simp_all)

lemma symbol_draft_ordered: "d \<in> set (symbol_draft lines symbol) \<Longrightarrow> ordered_lines d"
  by (auto simp add: symbol_draft_def Let_def ordered_lines_def split: if_splits)

lemma initial_drafts_ordered:
  "d \<in> set (initial_drafts self content symbols) \<Longrightarrow> ordered_lines d"
  by (auto simp add: initial_drafts_def Let_def
      dest: slice_file_fallback_ordered symbol_draft_ordered split: if_splits)

lemma split_draft_ordered:
  "ordered_lines draft \<Longrightarrow> d \<in> set (split_draft self draft) \<Longrightarrow> ordered_lines d"
  by (auto simp add: split_draft_def ordered_lines_def dest: split_text_ordered split: if_splits)

lemma split_large_drafts_ordered:
  "\<forall>d \<in> set drafts. ordered_lines d \<Longrightarrow> d \<in> set (split_large_drafts self drafts)
     \<Longrightarrow> ordered_lines d"
  by (auto simp add: split_large_drafts_def dest: split_draft_ordered)

lemma merge_ready_append:
  "merge_ready (xs @ ys) \<Longrightarrow> merge_ready xs \<and> merge_ready ys"
  by (auto simp add: merge_ready_def sorted_append)

lemma hd_start_le_last_end:
  assumes "merge_ready buffer" and "buffer \<noteq> []"
  shows "cd_start_line (hd buffer) \<le> cd_end_line (last buffer)"
proof -
  from assms obtain b bs where b: "buffer = b # bs" by (cases buffer) auto
  have "last buffer \<in> set buffer" using assms(2) by simp
  then have "cd_start_line b \<le> cd_start_line (last buffer)"
    using assms(1) b by (auto simp add: merge_ready_def)
  moreover have "ordered_lines (last buffer)"
    using assms \<open>last buffer \<in> set buffer\<close> by (simp add: merge_ready_def)
  ultimately show ?thesis by (simp add: b ordered_lines_def)
qed

lemma flush_buffer_ready:
  assumes "merge_ready (merged @ buffer @ rest)"
  shows "merge_ready (flush_buffer merged buffer @ rest)"
proof (cases "buffer = [] \<or> length buffer = 1")
  case True
  then have "flush_buffer merged buffer = merged @ buffer"
    by (cases buffer) (auto simp add: flush_buffer_def)
  with assms show ?thesis by simp
next
  case False
  then obtain b bs where b: "buffer = b # bs" by (cases buffer) auto
  define c where "c = \<lparr>cd_start_line = cd_start_line (hd buffer), cd_end_line = cd_end_line (last buffer),
               cd_symbol = (if length buffer = 1 then cd_symbol (hd buffer) else None),
               cd_symbol_kind = (if length buffer = 1 then cd_symbol_kind (hd buffer)
                                 else Some ''major_block''),
               cd_text = buffer_text buffer\<rparr>"
  from False have fl: "flush_buffer merged buffer = merged @ [c]"
    by (simp add: flush_buffer_def c_def)
  have rb: "merge_ready buffer"
    using assms merge_ready_append by blast
  have oc: "ordered_lines c"
    using hd_start_le_last_end [OF rb] False by (simp add: ordered_lines_def c_def)
  have sc: "cd_start_line c = cd_start_line b" by (simp add: c_def b)
  have "sorted (map cd_start_line (merged @ (b # bs) @ rest))"
    using assms by (simp add: merge_ready_def b)
  then have "sorted (map cd_start_line (merged @ [c] @ rest))"
    by (auto simp add: sorted_append sc)
  moreover have "\<forall>d \<in> set (merged @ [c] @ rest). ordered_lines d"
    using assms oc by (auto simp add: merge_ready_def)
  ultimately show ?thesis by (simp add: fl merge_ready_def)
qed

lemma merge_loop_ready:
  assumes "merge_ready (merged @ buffer @ rest)"
  shows "merge_ready (merge_loop self rest merged buffer)"
  using assms
proof (induction rest arbitrary: merged buffer)
  case Nil
  from flush_buffer_ready [of merged buffer "[]"] Nil show ?case by simp
next
  case (Cons draft rest)
  have a: "merge_ready ((flush_buffer merged buffer @ [draft]) @ [] @ rest)"
    using flush_buffer_ready [OF Cons.prems] by simp
  have b: "merge_ready (merged @ [draft] @ rest)" if "buffer = []"
    using Cons.prems that by simp
  have c: "merge_ready (merged @ (buffer @ [draft]) @ rest)"
    using Cons.prems by simp
  have d: "merge_ready (flush_buffer merged buffer @ [draft] @ rest)"
    using flush_buffer_ready [OF Cons.prems] by simp
  show ?case
    using Cons.IH [OF a] Cons.IH [OF c] Cons.IH [OF d] Cons.IH [of merged "[draft]"] b
    by (simp add: Let_def)
qed

lemma merge_tail_ordered:
  assumes "merge_ready merged" and "d \<in> set (merge_tail self merged)"
  shows "ordered_lines d"
proof (cases "length merged \<ge> 2 \<and> draft_tokens (last merged) < cb_min_tokens self")
  case False
  with assms show ?thesis by (auto simp add: merge_tail_def merge_ready_def)
next
  case True
  define tail where "tail = last merged"
  define prev where "prev = last (butlast merged)"
  define front where "front = butlast (butlast merged)"
  from True obtain xs t where xs: "merged = xs @ [t]"
    by (cases merged rule: rev_cases) auto
  with True obtain ys p where ys: "xs = ys @ [p]"
    by (cases xs rule: rev_cases) auto
  have "butlast merged = xs" "last merged = t" by (simp_all add: xs)
  then have parts: "merged = front @ [prev, tail]"
    by (simp add: front_def prev_def tail_def xs ys)
  from assms(1) have "cd_start_line prev \<le> cd_start_line tail" and "ordered_lines tail"
    and fr: "\<forall>d \<in> set front. ordered_lines d" and "ordered_lines prev"
    by (auto simp add: merge_ready_def parts sorted_append)
  then have "cd_start_line prev \<le> cd_end_line tail" by (simp add: ordered_lines_def)
  then have comb: "ordered_lines \<lparr>cd_start_line = cd_start_line prev, cd_end_line = cd_end_line tail,
                           cd_symbol = cd_symbol prev, cd_symbol_kind = cd_symbol_kind prev,
                           cd_text = cd_text prev @ NL @ NL @ cd_text tail\<rparr>"
    by (simp add: ordered_lines_def)
  from assms(2) True have "d \<in> set front \<or> d = prev \<or> d = tail
      \<or> d = \<lparr>cd_start_line = cd_start_line prev, cd_end_line = cd_end_line tail,
                           cd_symbol = cd_symbol prev, cd_symbol_kind = cd_symbol_kind prev,
                           cd_text = cd_text prev @ NL @ NL @ cd_text tail\<rparr>"
    by (auto simp add: merge_tail_def Let_def tail_def [symmetric] prev_def [symmetric]
        front_def [symmetric] split: if_splits)
  with fr \<open>ordered_lines prev\<close> \<open>ordered_lines tail\<close> comb show ?thesis by auto
qed

lemma sorted_by_pair_fst:
  "sorted (map (\<lambda>d. (f d, g d)) xs) \<Longrightarrow> sorted (map f xs)"
  for f :: "'a \<Rightarrow> int" and g :: "'a \<Rightarrow> int"
  by (induction xs) (auto simp add: less_eq_prod_def)

lemma merge_small_drafts_ordered:
  assumes "\<forall>d \<in> set drafts. ordered_lines d" and "d \<in> set (merge_small_drafts self drafts)"
  shows "ordered_lines d"
proof (cases "drafts = []")
  case True
  with assms show ?thesis by (simp add: merge_small_drafts_def)
next
  case False
  define sorted_drafts where "sorted_drafts = sort_key (\<lambda>d. (cd_start_line d, cd_end_line d)) drafts"
  have "sorted (map (\<lambda>d. (cd_start_line d, cd_end_line d)) sorted_drafts)"
    by (simp add: sorted_drafts_def)
  then have "sorted (map cd_start_line sorted_drafts)" by (rule sorted_by_pair_fst)
  moreover have "\<forall>d \<in> set sorted_drafts. ordered_lines d"
    using assms(1) by (simp add: sorted_drafts_def)
  ultimately have "merge_ready ([] @ [] @ sorted_drafts)" by (simp add: merge_ready_def)
  then have "merge_ready (merge_loop self sorted_drafts [] [])" by (rule merge_loop_ready)
  moreover have "d \<in> set (merge_tail self (merge_loop self sorted_drafts [] []))"
    using assms(2) False by (simp add: merge_small_drafts_def sorted_drafts_def)
  ultimately show ?thesis by (rule merge_tail_ordered)
qed

lemma demo_drafts:
  "merge_small_drafts ChunkBuilder_default
     (split_large_drafts ChunkBuilder_default (initial_drafts ChunkBuilder_default demo_source demo_symbols))
   = [demo_draft]"
  by code_simp

lemma demo_build:
  "build_chunks demo_lib ChunkBuilder_default [''repo''] [''repo'', ''a.py''] ''python'' ''h''
     demo_source demo_symbols
   = Inr [chunk_of_draft demo_lib ''/repo'' ''a.py'' ''python'' ''h'' demo_draft]"
  by (simp add: build_chunks_def relative_to_def rel_str_def path_str_def Let_def demo_drafts)

lemma str_int_1_2: "str_int 1 = ''1''" "str_int 2 = ''2''"
  by code_simp+

text \<open>
  C7. Every chunk that \<^verbatim>\<open>ChunkBuilder.build_chunks\<close> emits has \<open>start_line \<le> end_line\<close>, its
  file path is the path of the file relative to the repository root, and its chunk id is
  the SHA-256 hex digest of \<^verbatim>\<open>{file_path}|{start_line}|{end_line}|{text}\<close>.
\<close>

theorem chunk_lines_and_id:
  assumes "build_chunks lib self repo_path file_path language file_hash content symbols = Inr chunks"
    and "chunk \<in> set chunks"
  shows "ch_start_line chunk \<le> ch_end_line chunk
       \<and> (\<exists>rel. relative_to file_path repo_path = Inr rel \<and> repo_path @ rel = file_path
            \<and> ch_file_path chunk = rel_str rel
            \<and> ch_chunk_id chunk
                = lib_sha256_hex lib
                    (rel_str rel @ ''|'' @ str_int (ch_start_line chunk) @ ''|''
                     @ str_int (ch_end_line chunk) @ ''|'' @ ch_text chunk))"
proof -
  from assms(1) obtain rel where rel: "relative_to file_path repo_path = Inr rel"
    by (cases "relative_to file_path repo_path") (simp_all add: build_chunks_def)
  then have under: "repo_path @ rel = file_path"
    by (auto simp add: relative_to_def split: if_splits) (metis append_take_drop_id)
  define drafts where "drafts = merge_small_drafts self
      (split_large_drafts self (initial_drafts self content symbols))"
  from assms(1) rel have chunks:
    "chunks = map (chunk_of_draft lib (path_str repo_path) (rel_str rel) language file_hash) drafts"
    by (simp add: build_chunks_def Let_def drafts_def)
  with assms(2) obtain draft where d: "draft \<in> set drafts"
    and c: "chunk = chunk_of_draft lib (path_str repo_path) (rel_str rel) language file_hash draft"
    by auto
  have "\<forall>d \<in> set (split_large_drafts self (initial_drafts self content symbols)). ordered_lines d"
    using split_large_drafts_ordered initial_drafts_ordered by blast
  then have "ordered_lines draft"
    using d unfolding drafts_def by (rule merge_small_drafts_ordered)
  then show ?thesis
    using rel under by (simp add: c chunk_of_draft_def Let_def ordered_lines_def)
qed

theorem chunk_lines_and_id_witness:
  "\<exists>chunks chunk.
      build_chunks demo_lib ChunkBuilder_default [''repo''] [''repo'', ''a.py''] ''python'' ''h''
        demo_source demo_symbols = Inr chunks
    \<and> chunk \<in> set chunks
    \<and> ch_start_line chunk = 1 \<and> ch_end_line chunk = 2 \<and> ch_file_path chunk = ''a.py''
    \<and> ch_chunk_id chunk = ''sha256:a.py|1|2|def ab():'' @ NL @ ''    return 0''"
proof -
  let ?chunk = "chunk_of_draft demo_lib ''/repo'' ''a.py'' ''python'' ''h'' demo_draft"
  have lines: "ch_start_line ?chunk = 1" "ch_end_line ?chunk = 2"
    "ch_text ?chunk = ''def ab():'' @ NL @ ''    return 0''"
    by (simp_all add: chunk_of_draft_def Let_def demo_draft_def)
  have sha: "lib_sha256_hex demo_lib s = ''sha256:'' @ s" for s
    by (simp add: demo_lib_def)
  from chunk_lines_and_id [OF demo_build, of ?chunk] obtain rel
    where r: "relative_to [''repo'', ''a.py''] [''repo''] = Inr rel"
      and f: "ch_file_path ?chunk = rel_str rel"
      and i: "ch_chunk_id ?chunk
                = lib_sha256_hex demo_lib
                    (rel_str rel @ ''|'' @ str_int (ch_start_line ?chunk) @ ''|''
                     @ str_int (ch_end_line ?chunk) @ ''|'' @ ch_text ?chunk)"
    by auto
  from r have rs: "rel_str rel = ''a.py''"
    by (auto simp add: relative_to_def rel_str_def)
  from f rs have "ch_file_path ?chunk = ''a.py''" by simp
  moreover from i have "ch_chunk_id ?chunk = ''sha256:a.py|1|2|def ab():'' @ NL @ ''    return 0''"
    unfolding rs lines str_int_1_2 sha by simp
  ultimately have "ch_file_path ?chunk = ''a.py''"
    and "ch_chunk_id ?chunk = ''sha256:a.py|1|2|def ab():'' @ NL @ ''    return 0''"
    by simp_all
  with demo_build lines show ?thesis by auto
qed

end
